theory Spec2Isabelle
  imports Complex_Main
begin

section \<open>Numbers: C++ \<open>double\<close> and \<open>float\<close>\<close>

text \<open>
  The source computes with IEEE-754 binary64 (\<open>double\<close>) and binary32 (\<open>float\<close>) values.
  A value is kept in decoded form: \<open>Finite s m e\<close> is \<open>(-1)^s * m * 2^e\<close> (so
  \<open>Finite True 0 e\<close> is a negative zero), \<open>Infinity s\<close> is the signed infinity, and
  \<open>NaN\<close> is not-a-number. Both C++ types share the decoded form; they differ in the
  precision and the exponent range that a result is rounded to. The conversion from
  \<open>float\<close> to \<open>double\<close> is exact, hence the identity on decoded values.
\<close>

datatype ieee = Finite bool nat int | Infinity bool | NaN

type_synonym cdouble = ieee
type_synonym cfloat = ieee

text \<open>
  A format: the number of significand bits, the exponent of the least subnormal bit, and
  the exponent \<open>emax\<close> with every finite magnitude below \<open>2^emax\<close>.
\<close>

record format =
  precision :: nat
  emin :: int
  emax :: int

definition binary64 :: format where
  "binary64 = \<lparr>precision = 53, emin = - 1074, emax = 1024\<rparr>"

definition binary32 :: format where
  "binary32 = \<lparr>precision = 24, emin = - 149, emax = 128\<rparr>"

fun bitlen :: "nat \<Rightarrow> nat" where
  "bitlen n = (if n = 0 then 0 else Suc (bitlen (n div 2)))"

declare bitlen.simps [simp del]

text \<open>
  \<open>overflow\<close>: a rounded magnitude \<open>m * 2^e\<close> that reaches \<open>2^emax\<close> becomes the infinity.
  \<open>round_nearest_even\<close>: the exact magnitude \<open>m * 2^e\<close> loses the \<open>sh\<close> low bits that
  the precision and the least exponent do not hold; a tie goes to the even significand, and a
  significand that the carry lengthens by one bit is halved.
\<close>

definition overflow :: "format \<Rightarrow> bool \<Rightarrow> nat \<Rightarrow> int \<Rightarrow> ieee" where
  "overflow f s m e =
     (if m \<noteq> 0 \<and> emax f < int (bitlen m) + e then Infinity s else Finite s m e)"

definition round_nearest_even :: "format \<Rightarrow> bool \<Rightarrow> nat \<Rightarrow> int \<Rightarrow> ieee" where
  "round_nearest_even f s m e =
     (let sh = max (int (bitlen m) - int (precision f)) (emin f - e)
      in if sh \<le> 0 then overflow f s m e
         else let k = nat sh;
                  q = m div 2 ^ k;
                  r = m mod 2 ^ k;
                  half = 2 ^ (k - 1);
                  q' = (if half < r \<or> (r = half \<and> odd q) then q + 1 else q)
              in if precision f < bitlen q' then overflow f s (q' div 2) (e + sh + 1)
                 else overflow f s q' (e + sh))"

definition signed :: "bool \<Rightarrow> nat \<Rightarrow> int" where
  "signed s m = (if s then - int m else int m)"

text \<open>The two significands of a pair of finite values, scaled to their common exponent.\<close>

definition aligned :: "bool \<Rightarrow> nat \<Rightarrow> int \<Rightarrow> int \<Rightarrow> int" where
  "aligned s m e e0 = signed s m * 2 ^ nat (e - e0)"

fun ieee_neg :: "ieee \<Rightarrow> ieee" where
  "ieee_neg (Finite s m e) = Finite (\<not> s) m e"
| "ieee_neg (Infinity s) = Infinity (\<not> s)"
| "ieee_neg NaN = NaN"

fun ieee_add :: "format \<Rightarrow> ieee \<Rightarrow> ieee \<Rightarrow> ieee" where
  "ieee_add f NaN b = NaN"
| "ieee_add f a NaN = NaN"
| "ieee_add f (Infinity s) (Infinity t) = (if s = t then Infinity s else NaN)"
| "ieee_add f (Infinity s) (Finite t m e) = Infinity s"
| "ieee_add f (Finite s m e) (Infinity t) = Infinity t"
| "ieee_add f (Finite s1 m1 e1) (Finite s2 m2 e2) =
     (let e0 = min e1 e2;
          v = aligned s1 m1 e1 e0 + aligned s2 m2 e2 e0
      in if v = 0 then Finite (s1 \<and> s2) 0 e0
         else round_nearest_even f (v < 0) (nat \<bar>v\<bar>) e0)"

definition ieee_sub :: "format \<Rightarrow> ieee \<Rightarrow> ieee \<Rightarrow> ieee" where
  "ieee_sub f a b = ieee_add f a (ieee_neg b)"

fun ieee_mul :: "format \<Rightarrow> ieee \<Rightarrow> ieee \<Rightarrow> ieee" where
  "ieee_mul f NaN b = NaN"
| "ieee_mul f a NaN = NaN"
| "ieee_mul f (Infinity s) (Infinity t) = Infinity (s \<noteq> t)"
| "ieee_mul f (Infinity s) (Finite t m e) = (if m = 0 then NaN else Infinity (s \<noteq> t))"
| "ieee_mul f (Finite s m e) (Infinity t) = (if m = 0 then NaN else Infinity (s \<noteq> t))"
| "ieee_mul f (Finite s1 m1 e1) (Finite s2 m2 e2) =
     round_nearest_even f (s1 \<noteq> s2) (m1 * m2) (e1 + e2)"

text \<open>The comparisons \<open><\<close>, \<open><=\<close> and \<open>==\<close> of C++: false whenever an operand is NaN.\<close>

fun ieee_lt :: "ieee \<Rightarrow> ieee \<Rightarrow> bool" where
  "ieee_lt NaN b = False"
| "ieee_lt a NaN = False"
| "ieee_lt (Infinity s) (Infinity t) = (s \<and> \<not> t)"
| "ieee_lt (Infinity s) (Finite t m e) = s"
| "ieee_lt (Finite s m e) (Infinity t) = (\<not> t)"
| "ieee_lt (Finite s1 m1 e1) (Finite s2 m2 e2) =
     (aligned s1 m1 e1 (min e1 e2) < aligned s2 m2 e2 (min e1 e2))"

fun ieee_eq :: "ieee \<Rightarrow> ieee \<Rightarrow> bool" where
  "ieee_eq NaN b = False"
| "ieee_eq a NaN = False"
| "ieee_eq (Infinity s) (Infinity t) = (s = t)"
| "ieee_eq (Infinity s) (Finite t m e) = False"
| "ieee_eq (Finite s m e) (Infinity t) = False"
| "ieee_eq (Finite s1 m1 e1) (Finite s2 m2 e2) =
     (aligned s1 m1 e1 (min e1 e2) = aligned s2 m2 e2 (min e1 e2))"

definition ieee_le :: "ieee \<Rightarrow> ieee \<Rightarrow> bool" where
  "ieee_le a b = (ieee_lt a b \<or> ieee_eq a b)"

text \<open>The literal \<open>0.0\<close>, the cast \<open>(float)\<close> of a \<open>double\<close>, and the arithmetic of each type.\<close>

definition zero :: ieee where
  "zero = Finite False 0 0"

fun to_float :: "cdouble \<Rightarrow> cfloat" where
  "to_float (Finite s m e) = round_nearest_even binary32 s m e"
| "to_float (Infinity s) = Infinity s"
| "to_float NaN = NaN"

definition double_add :: "cdouble \<Rightarrow> cdouble \<Rightarrow> cdouble" where
  "double_add = ieee_add binary64"

definition double_sub :: "cdouble \<Rightarrow> cdouble \<Rightarrow> cdouble" where
  "double_sub = ieee_sub binary64"

definition double_mul :: "cdouble \<Rightarrow> cdouble \<Rightarrow> cdouble" where
  "double_mul = ieee_mul binary64"

definition float_add :: "cfloat \<Rightarrow> cfloat \<Rightarrow> cfloat" where
  "float_add = ieee_add binary32"

text \<open>
  A decoded value is a value of a format when its significand fits the precision, its
  exponent is not below the least exponent, and its magnitude is below \<open>2^emax\<close>.
\<close>

fun is_format :: "format \<Rightarrow> ieee \<Rightarrow> bool" where
  "is_format f (Finite s m e) =
     (bitlen m \<le> precision f \<and> emin f \<le> e \<and> (m = 0 \<or> int (bitlen m) + e \<le> emax f))"
| "is_format f (Infinity s) = True"
| "is_format f NaN = True"

text \<open>
  The real number that a finite value stands for, and the double-precision sums that are
  exact: the sum is finite and stands for the sum of the numbers of its operands.
\<close>

fun valof :: "ieee \<Rightarrow> real" where
  "valof (Finite s m e) = real_of_int (signed s m) * 2 powi e"
| "valof (Infinity s) = 0"
| "valof NaN = 0"

fun add_is_exact :: "cdouble \<Rightarrow> cdouble \<Rightarrow> bool" where
  "add_is_exact (Finite s1 m1 e1) (Finite s2 m2 e2) =
     (case double_add (Finite s1 m1 e1) (Finite s2 m2 e2) of
        Finite s m e \<Rightarrow>
          aligned s m e (min e (min e1 e2))
            = aligned s1 m1 e1 (min e (min e1 e2)) + aligned s2 m2 e2 (min e (min e1 e2))
      | Infinity s \<Rightarrow> False
      | NaN \<Rightarrow> False)"
| "add_is_exact (Finite s m e) (Infinity t) = False"
| "add_is_exact (Finite s m e) NaN = False"
| "add_is_exact (Infinity s) b = False"
| "add_is_exact NaN b = False"

text \<open>
  Modelled from the spec: \<open>jmax\<close> is declared outside the files at hand. The spec writes
  \<open>max(0, right - left)\<close>; as for C++ \<open>std::max\<close>, the result is the second argument when the
  first is less than it, and the first argument otherwise (also when one of them is NaN).
\<close>

definition jmax :: "ieee \<Rightarrow> ieee \<Rightarrow> ieee" where
  "jmax a b = (if ieee_lt a b then b else a)"

section \<open>Expression trees\<close>

text \<open>
  Modelled from the spec: the class \<open>Expression\<close> is declared outside the files at hand. The
  spec's data model gives a tree node tagged as a constant (with its numeric value), a symbol
  (with its name), an operator (with its name and ordered inputs) or a function call; constants
  and symbols have no inputs.
\<close>

datatype expression =
    Constant cdouble
  | Symbol string
  | Operator string "expression list"
  | Function string "expression list"

datatype Type = constantType | functionType | operatorType | symbolType

fun getType :: "expression \<Rightarrow> Type" where
  "getType (Constant v) = constantType"
| "getType (Symbol s) = symbolType"
| "getType (Operator n es) = operatorType"
| "getType (Function n es) = functionType"

fun getSymbolOrFunction :: "expression \<Rightarrow> string" where
  "getSymbolOrFunction (Constant v) = []"
| "getSymbolOrFunction (Symbol s) = s"
| "getSymbolOrFunction (Operator n es) = n"
| "getSymbolOrFunction (Function n es) = n"

fun getInputs :: "expression \<Rightarrow> expression list" where
  "getInputs (Constant v) = []"
| "getInputs (Symbol s) = []"
| "getInputs (Operator n es) = es"
| "getInputs (Function n es) = es"

definition getNumInputs :: "expression \<Rightarrow> nat" where
  "getNumInputs e = length (getInputs e)"

text \<open>
  Modelled from the spec: \<open>RelativeCoordinate::StandardStrings::getTypeOf\<close> is declared
  outside the files at hand. The spec names six canonical self-attribute names; every other
  name is not one of them (the \<open>default\<close> branch of the two \<open>switch\<close> statements).
\<close>

datatype StandardStrings =
    StandardStrings_left | StandardStrings_right | StandardStrings_top
  | StandardStrings_bottom | StandardStrings_x | StandardStrings_y
  | StandardStrings_unknown

definition getTypeOf :: "string \<Rightarrow> StandardStrings" where
  "getTypeOf s =
     (if s = ''left'' then StandardStrings_left
      else if s = ''right'' then StandardStrings_right
      else if s = ''top'' then StandardStrings_top
      else if s = ''bottom'' then StandardStrings_bottom
      else if s = ''x'' then StandardStrings_x
      else if s = ''y'' then StandardStrings_y
      else StandardStrings_unknown)"

section \<open>RelativeRectangleHelpers\<close>

text \<open>
  \<open>dependsOnSymbolsOtherThanThis\<close>: an operator named \<open>"."\<close> answers true at once; a symbol
  answers by the \<open>switch\<close> on its standard type; any other node walks its inputs from the
  last to the first (\<open>for (int i = e.getNumInputs(); --i >= 0;)\<close>) and answers true at the
  first input that does.
\<close>

function dependsOnSymbolsOtherThanThis :: "expression \<Rightarrow> bool" where
  "dependsOnSymbolsOtherThanThis e =
     (if getType e = operatorType \<and> getSymbolOrFunction e = ''.'' then True
      else if getType e = symbolType then
        (case getTypeOf (getSymbolOrFunction e) of
           StandardStrings_x \<Rightarrow> False
         | StandardStrings_y \<Rightarrow> False
         | StandardStrings_left \<Rightarrow> False
         | StandardStrings_right \<Rightarrow> False
         | StandardStrings_top \<Rightarrow> False
         | StandardStrings_bottom \<Rightarrow> False
         | _ \<Rightarrow> True)
      else list_ex dependsOnSymbolsOtherThanThis (rev (getInputs e)))"
  by pat_completeness auto

termination dependsOnSymbolsOtherThanThis
proof (relation "measure size")
  show "wf (measure size)" by simp
next
  fix e i :: expression
  assume "i \<in> set (rev (getInputs e))"
  then have "i \<in> set (getInputs e)" by simp
  then have "size i < size e"
    by (cases e) (auto simp: less_Suc_eq_le size_list_estimation')
  then show "(i, e) \<in> measure size" by simp
qed

declare dependsOnSymbolsOtherThanThis.simps [simp del]


section \<open>RelativeCoordinate, scopes and rectangles\<close>

text \<open>
  Modelled from the spec: the class \<open>RelativeCoordinate\<close> is declared outside the files at
  hand. By the spec a coordinate owns one expression, and equality of coordinates is structural
  equality of their underlying expressions.
\<close>

datatype RelativeCoordinate = RelativeCoordinate (getExpression: expression)

definition coordinate_eq :: "RelativeCoordinate \<Rightarrow> RelativeCoordinate \<Rightarrow> bool" where
  "coordinate_eq a b = (getExpression a = getExpression b)"

text \<open>The spec's error taxonomy; an exception of the source is a value \<open>Inl err\<close>.\<close>

datatype error =
    SyntaxError
  | UnresolvedSymbolError
  | CyclicDependencyError
  | UnsupportedReverseSolveError

text \<open>
  \<open>Expression::Scope\<close>: the one virtual member that the source overrides, \<open>getSymbolValue\<close>.
\<close>

record Scope =
  getSymbolValue :: "string \<Rightarrow> error + expression"

text \<open>
  Modelled from the spec: \<open>Rectangle<float>\<close> and \<open>Rectangle<int>\<close> are declared outside
  the files at hand. By the spec a concrete rectangle is \<open>(x, y, width, height)\<close>; the float
  rectangle is read by \<open>getX\<close>, \<open>getY\<close>, \<open>getWidth\<close> and \<open>getHeight\<close>. Its right edge is
  \<open>x + width\<close> and its bottom edge is \<open>y + height\<close> (the spec's width is \<open>right - left\<close>),
  computed in \<open>float\<close>. Two integer rectangles are equal when their four numbers are.
\<close>

record Rectangle_float =
  getX :: cfloat
  getY :: cfloat
  getWidth :: cfloat
  getHeight :: cfloat

definition getRight :: "Rectangle_float \<Rightarrow> cfloat" where
  "getRight r = float_add (getX r) (getWidth r)"

definition getBottom :: "Rectangle_float \<Rightarrow> cfloat" where
  "getBottom r = float_add (getY r) (getHeight r)"

datatype Rectangle_int = Rectangle_int int int int int

text \<open>
  The members of \<open>Expression\<close>, \<open>Expression::Scope\<close>, \<open>RelativeCoordinate\<close> and
  \<open>Rectangle<float>\<close> that the source calls and that are defined outside the files at hand,
  taken as parameters. \<open>coordinate_resolve\<close> is \<open>RelativeCoordinate::resolve\<close> with a
  non-null scope, \<open>coordinate_moveToAbsolute\<close> is \<open>RelativeCoordinate::moveToAbsolute\<close> and
  gives the coordinate after the call, \<open>expression_toString\<close> is \<open>Expression::toString\<close>,
  \<open>expression_parse\<close> is \<open>Expression::parse\<close> and gives the expression with the text that
  is left, and \<open>base_getSymbolValue\<close> is \<open>Expression::Scope::getSymbolValue\<close> of the base
  class. Each of them may throw.
\<close>

record library =
  coordinate_resolve :: "RelativeCoordinate \<Rightarrow> Scope \<Rightarrow> error + cdouble"
  coordinate_moveToAbsolute ::
    "RelativeCoordinate \<Rightarrow> cdouble \<Rightarrow> Scope option \<Rightarrow> error + RelativeCoordinate"
  expression_toString :: "expression \<Rightarrow> string"
  expression_parse :: "string \<Rightarrow> error + expression \<times> string"
  base_getSymbolValue :: "string \<Rightarrow> error + expression"
  getSmallestIntegerContainer :: "Rectangle_float \<Rightarrow> Rectangle_int"

text \<open>
  The four members of \<open>RelativeRectangle\<close>, in the order of the constructor
  \<open>RelativeRectangle (left_, right_, top_, bottom_)\<close>. The member \<open>top\<close> is written
  \<open>top'\<close>, because \<open>top\<close> is the greatest element of a lattice in HOL.
\<close>

record RelativeRectangle =
  left :: RelativeCoordinate
  right :: RelativeCoordinate
  top' :: RelativeCoordinate
  bottom :: RelativeCoordinate

text \<open>
  \<open>RelativeRectangle (const Rectangle<float>&)\<close>. Three members that it uses are declared
  outside the files at hand and follow the spec's expression tree: the constructor
  \<open>RelativeCoordinate (double)\<close> holds the constant, \<open>operator+\<close> of two expressions is the
  operator node \<open>"+"\<close> over them, and \<open>Strings::left\<close> and \<open>Strings::top\<close> are the names
  \<open>left\<close> and \<open>top\<close>.
\<close>

definition RelativeRectangle_of_Rectangle :: "Rectangle_float \<Rightarrow> RelativeRectangle" where
  "RelativeRectangle_of_Rectangle rect =
     \<lparr>left = RelativeCoordinate (Constant (getX rect)),
      right = RelativeCoordinate (Operator ''+'' [Symbol ''left'', Constant (getWidth rect)]),
      top' = RelativeCoordinate (Constant (getY rect)),
      bottom = RelativeCoordinate (Operator ''+'' [Symbol ''top'', Constant (getHeight rect)])\<rparr>"

text \<open>
  Modelled from the spec: \<open>findEndOfWhitespace\<close> is declared outside the files at hand. It
  gives the text from its first character that is not whitespace; whitespace is the blank and
  the control characters from the tabulator to the carriage return.
\<close>

definition isWhitespace :: "char \<Rightarrow> bool" where
  "isWhitespace c = (c = CHR '' '' \<or> ((9::nat) \<le> of_char c \<and> of_char c \<le> (13::nat)))"

definition findEndOfWhitespace :: "string \<Rightarrow> string" where
  "findEndOfWhitespace s = dropWhile isWhitespace s"

text \<open>\<open>skipComma\<close>: skip the whitespace, then one comma if it is there.\<close>

definition skipComma :: "string \<Rightarrow> string" where
  "skipComma s =
     (case findEndOfWhitespace s of
        [] \<Rightarrow> []
      | c # t \<Rightarrow> if c = CHR '','' then t else c # t)"

text \<open>
  \<open>RelativeRectangle (const String&)\<close>: four calls of \<open>Expression::parse\<close> on the same text
  pointer, which each call advances, with \<open>skipComma\<close> between them; the results go to
  \<open>left\<close>, \<open>top\<close>, \<open>right\<close>, \<open>bottom\<close> in this order. An exception of a parse leaves the
  constructor.
\<close>

definition RelativeRectangle_of_String :: "library \<Rightarrow> string \<Rightarrow> error + RelativeRectangle" where
  "RelativeRectangle_of_String L s =
     (case expression_parse L s of
        Inl err \<Rightarrow> Inl err
      | Inr (l, text1) \<Rightarrow>
     (case expression_parse L (skipComma text1) of
        Inl err \<Rightarrow> Inl err
      | Inr (t, text2) \<Rightarrow>
     (case expression_parse L (skipComma text2) of
        Inl err \<Rightarrow> Inl err
      | Inr (r, text3) \<Rightarrow>
     (case expression_parse L (skipComma text3) of
        Inl err \<Rightarrow> Inl err
      | Inr (b, text4) \<Rightarrow>
          Inr \<lparr>left = RelativeCoordinate l, right = RelativeCoordinate r,
               top' = RelativeCoordinate t, bottom = RelativeCoordinate b\<rparr>))))"

definition operator_eq :: "RelativeRectangle \<Rightarrow> RelativeRectangle \<Rightarrow> bool" where
  "operator_eq this other =
     (coordinate_eq (left this) (left other) \<and> coordinate_eq (top' this) (top' other)
      \<and> coordinate_eq (right this) (right other) \<and> coordinate_eq (bottom this) (bottom other))"

definition operator_neq :: "RelativeRectangle \<Rightarrow> RelativeRectangle \<Rightarrow> bool" where
  "operator_neq this other = (\<not> operator_eq this other)"

text \<open>\<open>RelativeRectangleLocalScope\<close>: the scope that evaluates expressions using "this".\<close>

definition RelativeRectangleLocalScope :: "library \<Rightarrow> RelativeRectangle \<Rightarrow> Scope" where
  "RelativeRectangleLocalScope L rect =
     \<lparr>getSymbolValue = (\<lambda>symbol.
        case getTypeOf symbol of
          StandardStrings_x \<Rightarrow> Inr (getExpression (left rect))
        | StandardStrings_left \<Rightarrow> Inr (getExpression (left rect))
        | StandardStrings_y \<Rightarrow> Inr (getExpression (top' rect))
        | StandardStrings_top \<Rightarrow> Inr (getExpression (top' rect))
        | StandardStrings_right \<Rightarrow> Inr (getExpression (right rect))
        | StandardStrings_bottom \<Rightarrow> Inr (getExpression (bottom rect))
        | _ \<Rightarrow> base_getSymbolValue L symbol)\<rparr>"

text \<open>
  \<open>RelativeRectangle::resolve\<close>. A null scope is \<open>None\<close>: the function then calls itself
  with the local scope of this rectangle. An exception of a coordinate's \<open>resolve\<close> leaves
  the function at that call.
\<close>

function resolve :: "library \<Rightarrow> RelativeRectangle \<Rightarrow> Scope option \<Rightarrow> error + Rectangle_float"
  where
  "resolve L this None = resolve L this (Some (RelativeRectangleLocalScope L this))"
| "resolve L this (Some scope) =
     (case coordinate_resolve L (left this) scope of
        Inl err \<Rightarrow> Inl err
      | Inr l \<Rightarrow>
     (case coordinate_resolve L (right this) scope of
        Inl err \<Rightarrow> Inl err
      | Inr r \<Rightarrow>
     (case coordinate_resolve L (top' this) scope of
        Inl err \<Rightarrow> Inl err
      | Inr t \<Rightarrow>
     (case coordinate_resolve L (bottom this) scope of
        Inl err \<Rightarrow> Inl err
      | Inr b \<Rightarrow>
          Inr \<lparr>getX = to_float l, getY = to_float t,
               getWidth = to_float (jmax zero (double_sub r l)),
               getHeight = to_float (jmax zero (double_sub b t))\<rparr>))))"
  by pat_completeness auto

termination resolve
  by (relation "measure (\<lambda>(L, this, scope). case scope of None \<Rightarrow> 1 | Some s \<Rightarrow> 0)") auto

text \<open>
  \<open>RelativeRectangle::moveToAbsolute\<close>: the four coordinates are moved one after the other;
  an exception leaves the function with the coordinates moved so far. The result is the
  rectangle after the call, with the exception if there was one.
\<close>

definition moveToAbsolute ::
  "library \<Rightarrow> RelativeRectangle \<Rightarrow> Rectangle_float \<Rightarrow> Scope option
     \<Rightarrow> error option \<times> RelativeRectangle" where
  "moveToAbsolute L this newPos scope =
     (case coordinate_moveToAbsolute L (left this) (getX newPos) scope of
        Inl err \<Rightarrow> (Some err, this)
      | Inr l \<Rightarrow> let this1 = this\<lparr>left := l\<rparr> in
     (case coordinate_moveToAbsolute L (right this1) (getRight newPos) scope of
        Inl err \<Rightarrow> (Some err, this1)
      | Inr r \<Rightarrow> let this2 = this1\<lparr>right := r\<rparr> in
     (case coordinate_moveToAbsolute L (top' this2) (getY newPos) scope of
        Inl err \<Rightarrow> (Some err, this2)
      | Inr t \<Rightarrow> let this3 = this2\<lparr>top' := t\<rparr> in
     (case coordinate_moveToAbsolute L (bottom this3) (getBottom newPos) scope of
        Inl err \<Rightarrow> (Some err, this3)
      | Inr b \<Rightarrow> (None, this3\<lparr>bottom := b\<rparr>)))))"

definition isDynamic :: "RelativeRectangle \<Rightarrow> bool" where
  "isDynamic this =
     (dependsOnSymbolsOtherThanThis (getExpression (left this))
      \<or> dependsOnSymbolsOtherThanThis (getExpression (right this))
      \<or> dependsOnSymbolsOtherThanThis (getExpression (top' this))
      \<or> dependsOnSymbolsOtherThanThis (getExpression (bottom this)))"

text \<open>
  \<open>RelativeRectangle::toString\<close>; \<open>RelativeCoordinate::toString\<close> is the text of the
  coordinate's expression.
\<close>

definition coordinate_toString :: "library \<Rightarrow> RelativeCoordinate \<Rightarrow> string" where
  "coordinate_toString L c = expression_toString L (getExpression c)"

definition toString :: "library \<Rightarrow> RelativeRectangle \<Rightarrow> string" where
  "toString L this =
     coordinate_toString L (left this) @ '', '' @ coordinate_toString L (top' this) @ '', ''
     @ coordinate_toString L (right this) @ '', '' @ coordinate_toString L (bottom this)"

section \<open>The component positioner\<close>

text \<open>
  \<open>Component::getPositioner\<close> gives a positioner of any class, or none; the
  \<open>dynamic_cast\<close> of the source keeps a \<open>RelativeRectangleComponentPositioner\<close>, which holds
  its own copy of a rectangle, and turns every other positioner into the null pointer.
\<close>

datatype 'p Positioner =
    RelativeRectangleComponentPositioner RelativeRectangle
  | OtherPositioner 'p

fun dynamic_cast :: "'p Positioner option \<Rightarrow> RelativeRectangle option" where
  "dynamic_cast (Some (RelativeRectangleComponentPositioner rectangle)) = Some rectangle"
| "dynamic_cast (Some (OtherPositioner p)) = None"
| "dynamic_cast None = None"

text \<open>
  Modelled from the spec: the class \<open>Component\<close>, the class \<open>ComponentScope\<close> and the member
  \<open>apply\<close> of \<open>RelativeCoordinatePositionerBase\<close> are declared outside the files at hand.
  The spec's boundary contract of the owner is \<open>GetBounds\<close>, \<open>SetBounds\<close>, \<open>GetPositioner\<close>
  and \<open>SetPositioner\<close>. They are parameters over the state \<open>'c\<close> of the owner and of
  everything a call on it may reach; each call is taken to return. \<open>positioner_apply\<close> is
  \<open>apply\<close> of a positioner that holds the given rectangle; it may throw.
\<close>

record ('c, 'p) Component =
  getBounds :: "'c \<Rightarrow> Rectangle_int"
  setBounds :: "'c \<Rightarrow> Rectangle_int \<Rightarrow> 'c"
  getPositioner :: "'c \<Rightarrow> 'p Positioner option"
  setPositioner :: "'c \<Rightarrow> 'p Positioner option \<Rightarrow> 'c"
  ComponentScope :: "'c \<Rightarrow> Scope"
  positioner_apply :: "RelativeRectangle \<Rightarrow> 'c \<Rightarrow> error option \<times> 'c"

definition isUsingRectangle :: "RelativeRectangle \<Rightarrow> RelativeRectangle \<Rightarrow> bool" where
  "isUsingRectangle rectangle other = operator_eq rectangle other"

text \<open>
  \<open>applyToComponentBounds\<close>. The loop \<open>for (int i = 4; --i >= 0;)\<close> is \<open>applyLoop\<close> on the
  value of \<open>i\<close> before the decrement. A run records the state of the owner at its end, how
  it ended (the early \<open>return\<close>, the \<open>jassertfalse\<close> after the loop, or an exception of
  \<open>resolve\<close>), every call of \<open>setBounds\<close> with the state it was made in, and the number of
  times the loop body was entered.
\<close>

datatype status = FixedPoint | AssertFalse | Thrown error

record 'c run =
  component :: 'c
  status :: status
  calls :: "('c \<times> Rectangle_int) list"
  iterations :: nat

function applyLoop ::
  "library \<Rightarrow> ('c, 'p) Component \<Rightarrow> RelativeRectangle \<Rightarrow> int \<Rightarrow> 'c \<Rightarrow> 'c run" where
  "applyLoop L C rectangle i c =
     (if i - 1 \<ge> 0 then
        (case resolve L rectangle (Some (ComponentScope C c)) of
           Inl err \<Rightarrow> \<lparr>component = c, status = Thrown err, calls = [], iterations = 1\<rparr>
         | Inr r \<Rightarrow>
             let newBounds = getSmallestIntegerContainer L r in
             if newBounds = getBounds C c
             then \<lparr>component = c, status = FixedPoint, calls = [], iterations = 1\<rparr>
             else let rest = applyLoop L C rectangle (i - 1) (setBounds C c newBounds)
                  in rest\<lparr>calls := (c, newBounds) # calls rest,
                          iterations := Suc (iterations rest)\<rparr>)
      else \<lparr>component = c, status = AssertFalse, calls = [], iterations = 0\<rparr>)"
  by pat_completeness auto

termination applyLoop
  by (relation "measure (\<lambda>(L, C, rectangle, i, c). nat i)") auto

declare applyLoop.simps [simp del]

definition applyToComponentBounds ::
  "library \<Rightarrow> ('c, 'p) Component \<Rightarrow> RelativeRectangle \<Rightarrow> 'c \<Rightarrow> 'c run" where
  "applyToComponentBounds L C rectangle c = applyLoop L C rectangle 4 c"

text \<open>
  \<open>RelativeRectangle::applyToComponent\<close>. The result is the state of the owner after the
  call, with the exception if one left the function.
\<close>

definition applyToComponent ::
  "library \<Rightarrow> ('c, 'p) Component \<Rightarrow> RelativeRectangle \<Rightarrow> 'c \<Rightarrow> error option \<times> 'c" where
  "applyToComponent L C this c =
     (if isDynamic this then
        (let current = dynamic_cast (getPositioner C c) in
         if current = None \<or> \<not> isUsingRectangle (the current) this then
           (let p = RelativeRectangleComponentPositioner this;
                c1 = setPositioner C c (Some p)
            in positioner_apply C this c1)
         else (None, c))
      else
        (let c1 = setPositioner C c None in
         case resolve L this None of
           Inl err \<Rightarrow> (Some err, c1)
         | Inr r \<Rightarrow> (None, setBounds C c1 (getSmallestIntegerContainer L r))))"

section \<open>Evaluation of expressions\<close>

text \<open>
  Modelled from the spec: \<open>Expression::evaluate\<close> and \<open>RelativeCoordinate::resolve\<close> are
  defined outside the files at hand. By the spec a constant is its value; a symbol is looked
  up in the scope, which gives an expression that is evaluated in turn, and a symbol without
  a binding is a resolution failure; resolution that recurses without terminating is a
  cyclic-dependency error, here after \<open>depth\<close> nested look-ups; an operator node evaluates
  all its inputs before it combines them. The spec leaves the division policy and the
  functions open: every node other than a binary \<open>+\<close>, \<open>-\<close> or \<open>*\<close> is combined by the
  parameter \<open>other\<close>. Errors propagate to the caller.
\<close>

fun sequence :: "(error + 'a) list \<Rightarrow> error + 'a list" where
  "sequence [] = Inr []"
| "sequence (Inl err # xs) = Inl err"
| "sequence (Inr v # xs) = (case sequence xs of Inl err \<Rightarrow> Inl err | Inr vs \<Rightarrow> Inr (v # vs))"

definition applyOperator ::
  "(string \<Rightarrow> cdouble list \<Rightarrow> error + cdouble) \<Rightarrow> string \<Rightarrow> cdouble list \<Rightarrow> error + cdouble"
  where
  "applyOperator other n vs =
     (case vs of
        [a, b] \<Rightarrow>
          if n = ''+'' then Inr (double_add a b)
          else if n = ''-'' then Inr (double_sub a b)
          else if n = ''*'' then Inr (double_mul a b)
          else other n vs
      | _ \<Rightarrow> other n vs)"

fun evaluate ::
  "(string \<Rightarrow> cdouble list \<Rightarrow> error + cdouble) \<Rightarrow> nat \<Rightarrow> Scope \<Rightarrow> expression
     \<Rightarrow> error + cdouble" where
  "evaluate other depth scope (Constant v) = Inr v"
| "evaluate other 0 scope (Symbol s) = Inl CyclicDependencyError"
| "evaluate other (Suc depth) scope (Symbol s) =
     (case getSymbolValue scope s of
        Inl err \<Rightarrow> Inl err
      | Inr e \<Rightarrow> evaluate other depth scope e)"
| "evaluate other depth scope (Operator n es) =
     (case sequence (map (evaluate other depth scope) es) of
        Inl err \<Rightarrow> Inl err
      | Inr vs \<Rightarrow> applyOperator other n vs)"
| "evaluate other depth scope (Function n es) =
     (case sequence (map (evaluate other depth scope) es) of
        Inl err \<Rightarrow> Inl err
      | Inr vs \<Rightarrow> other n vs)"

definition RelativeCoordinate_resolve ::
  "(string \<Rightarrow> cdouble list \<Rightarrow> error + cdouble) \<Rightarrow> nat \<Rightarrow> RelativeCoordinate \<Rightarrow> Scope
     \<Rightarrow> error + cdouble" where
  "RelativeCoordinate_resolve other depth c scope = evaluate other depth scope (getExpression c)"

subsection \<open>The spec's wording of the classification\<close>

text \<open>
  The spec's "purely local" expression, written from its words: every leaf symbol is one of
  the six canonical self-attribute names, and no node is an operator named \<open>"."\<close>.
\<close>

definition canonicalNames :: "string list" where
  "canonicalNames = [''x'', ''y'', ''left'', ''right'', ''top'', ''bottom'']"

fun purelyLocal :: "expression \<Rightarrow> bool" where
  "purelyLocal (Constant v) = True"
| "purelyLocal (Symbol s) = (s \<in> set canonicalNames)"
| "purelyLocal (Operator n es) = (n \<noteq> ''.'' \<and> list_all purelyLocal es)"
| "purelyLocal (Function n es) = list_all purelyLocal es"

subsection \<open>The spec's wording of the cycle guard and of the round trip\<close>

text \<open>
  "No fixed point is reached": each of the first \<open>n\<close> resolutions, starting in the state
  \<open>c\<close> and setting the resolved bounds each time, gives bounds that differ from the current
  ones.
\<close>

fun neverFixed ::
  "library \<Rightarrow> ('c, 'p) Component \<Rightarrow> RelativeRectangle \<Rightarrow> nat \<Rightarrow> 'c \<Rightarrow> bool" where
  "neverFixed L C rectangle 0 c = True"
| "neverFixed L C rectangle (Suc n) c =
     (case resolve L rectangle (Some (ComponentScope C c)) of
        Inl err \<Rightarrow> False
      | Inr r \<Rightarrow>
          getSmallestIntegerContainer L r \<noteq> getBounds C c
          \<and> neverFixed L C rectangle n (setBounds C c (getSmallestIntegerContainer L r)))"

text \<open>
  "No floating-point edge cases": the text of the expression \<open>e\<close> reads back as \<open>e\<close>, a
  property of the parser and the printer alone. The text starts with a character that is
  neither whitespace nor a comma. After any leading whitespace, the parser reads \<open>e\<close> from the
  text of \<open>e\<close> at the end of the input, and also from the text of \<open>e\<close> followed by the
  separator \<open>", "\<close> and further text; there the parser stops before the comma, after the
  comma, or after the blank that follows it.
\<close>

definition readsBack :: "library \<Rightarrow> expression \<Rightarrow> bool" where
  "readsBack L e =
     ((\<exists>c t. expression_toString L e = c # t \<and> \<not> isWhitespace c \<and> c \<noteq> CHR '','')
      \<and> (\<forall>ws. list_all isWhitespace ws \<longrightarrow>
             (\<exists>rest. expression_parse L (ws @ expression_toString L e) = Inr (e, rest))
             \<and> (\<forall>c further. \<not> isWhitespace c \<and> c \<noteq> CHR '','' \<longrightarrow>
                   (\<exists>rest.
                      expression_parse L (ws @ expression_toString L e @ '', '' @ c # further)
                        = Inr (e, rest)
                      \<and> (rest = '', '' @ c # further \<or> rest = CHR '' '' # c # further
                           \<or> rest = c # further)))))"

section \<open>A concrete instance for the examples\<close>

text \<open>
  An instance of the parameters, for examples on concrete rectangles: coordinates resolve by
  the evaluator above with no further operators and 256 nested look-ups, the base scope binds
  no symbol, and a coordinate moved to an absolute value becomes that constant. A symbol is
  printed as its name and every other expression as \<open>?\<close>; a text is parsed, after its leading
  whitespace, as the symbol that ends before the next comma. The integer container of a float
  rectangle goes from the floors of its left and top edges to the ceilings of its right and
  bottom edges. The owner is its bounds and its positioner; setting one leaves the other, the
  scope of the owner binds the six canonical names to the edges of its bounds, and a
  positioner is applied by the bounded loop.
\<close>

definition noOperators :: "string \<Rightarrow> cdouble list \<Rightarrow> error + cdouble" where
  "noOperators n vs = Inl UnsupportedReverseSolveError"

definition symbolText :: "expression \<Rightarrow> string" where
  "symbolText e = (case e of Symbol s \<Rightarrow> s | _ \<Rightarrow> ''?'')"

definition symbolParse :: "string \<Rightarrow> error + expression \<times> string" where
  "symbolParse s =
     (let u = dropWhile isWhitespace s
      in Inr (Symbol (takeWhile (\<lambda>c. c \<noteq> CHR '','') u), dropWhile (\<lambda>c. c \<noteq> CHR '','') u))"

definition double_of_int :: "int \<Rightarrow> cdouble" where
  "double_of_int i = Finite (i < 0) (nat \<bar>i\<bar>) 0"

fun floor_ieee :: "ieee \<Rightarrow> int" where
  "floor_ieee (Finite s m e) =
     (if 0 \<le> e then signed s m * 2 ^ nat e else signed s m div 2 ^ nat (- e))"
| "floor_ieee (Infinity s) = 0"
| "floor_ieee NaN = 0"

fun ceil_ieee :: "ieee \<Rightarrow> int" where
  "ceil_ieee (Finite s m e) =
     (if 0 \<le> e then signed s m * 2 ^ nat e else - ((- signed s m) div 2 ^ nat (- e)))"
| "ceil_ieee (Infinity s) = 0"
| "ceil_ieee NaN = 0"

definition integerContainer :: "Rectangle_float \<Rightarrow> Rectangle_int" where
  "integerContainer r =
     (let x1 = floor_ieee (getX r);
          y1 = floor_ieee (getY r);
          x2 = ceil_ieee (float_add (getX r) (getWidth r));
          y2 = ceil_ieee (float_add (getY r) (getHeight r))
      in Rectangle_int x1 y1 (x2 - x1) (y2 - y1))"

definition plainLibrary :: library where
  "plainLibrary =
     \<lparr>coordinate_resolve = RelativeCoordinate_resolve noOperators 256,
      coordinate_moveToAbsolute = (\<lambda>c v scope. Inr (RelativeCoordinate (Constant v))),
      expression_toString = symbolText,
      expression_parse = symbolParse,
      base_getSymbolValue = (\<lambda>symbol. Inl UnresolvedSymbolError),
      getSmallestIntegerContainer = integerContainer\<rparr>"

record owner =
  bounds :: Rectangle_int
  held :: "unit Positioner option"

definition ownerScope :: "owner \<Rightarrow> Scope" where
  "ownerScope c =
     (case bounds c of Rectangle_int x y w h \<Rightarrow>
        \<lparr>getSymbolValue = (\<lambda>symbol.
           case getTypeOf symbol of
             StandardStrings_x \<Rightarrow> Inr (Constant (double_of_int x))
           | StandardStrings_left \<Rightarrow> Inr (Constant (double_of_int x))
           | StandardStrings_y \<Rightarrow> Inr (Constant (double_of_int y))
           | StandardStrings_top \<Rightarrow> Inr (Constant (double_of_int y))
           | StandardStrings_right \<Rightarrow> Inr (Constant (double_of_int (x + w)))
           | StandardStrings_bottom \<Rightarrow> Inr (Constant (double_of_int (y + h)))
           | _ \<Rightarrow> Inl UnresolvedSymbolError)\<rparr>)"

definition baseComponent :: "(owner, unit) Component" where
  "baseComponent =
     \<lparr>getBounds = bounds,
      setBounds = (\<lambda>c b. c\<lparr>bounds := b\<rparr>),
      getPositioner = held,
      setPositioner = (\<lambda>c p. c\<lparr>held := p\<rparr>),
      ComponentScope = ownerScope,
      positioner_apply = (\<lambda>rectangle c. (None, c))\<rparr>"

definition plainComponent :: "(owner, unit) Component" where
  "plainComponent =
     baseComponent\<lparr>positioner_apply := (\<lambda>rectangle c.
        let run = applyToComponentBounds plainLibrary baseComponent rectangle c
        in (case status run of Thrown err \<Rightarrow> Some err | _ \<Rightarrow> None, component run))\<rparr>"

text \<open>
  Three rectangles for the examples: \<open>clamped\<close> has its right edge left of its left edge;
  \<open>growing\<close> has the right edge \<open>right + 1\<close>, which no bounds satisfy; \<open>settled\<close> is made of
  constants.
\<close>

definition clamped :: RelativeRectangle where
  "clamped =
     \<lparr>left = RelativeCoordinate (Constant (Finite False 5 0)),
      right = RelativeCoordinate (Constant (Finite False 3 0)),
      top' = RelativeCoordinate (Constant (Finite False 1 0)),
      bottom = RelativeCoordinate (Operator ''+'' [Symbol ''top'', Constant (Finite False 3 0)])\<rparr>"

definition growing :: RelativeRectangle where
  "growing =
     \<lparr>left = RelativeCoordinate (Constant (Finite False 0 0)),
      right = RelativeCoordinate (Operator ''+'' [Symbol ''right'', Constant (Finite False 1 0)]),
      top' = RelativeCoordinate (Constant (Finite False 0 0)),
      bottom = RelativeCoordinate (Constant (Finite False 10 0))\<rparr>"

definition settled :: RelativeRectangle where
  "settled =
     \<lparr>left = RelativeCoordinate (Constant (Finite False 0 0)),
      right = RelativeCoordinate (Constant (Finite False 10 0)),
      top' = RelativeCoordinate (Constant (Finite False 0 0)),
      bottom = RelativeCoordinate (Constant (Finite False 10 0))\<rparr>"

text \<open>
  Two more: \<open>anchored\<close> refers to another object by the operator \<open>"."\<close>, and in \<open>looping\<close>
  the left edge is defined as itself.
\<close>

definition anchored :: RelativeRectangle where
  "anchored =
     \<lparr>left = RelativeCoordinate (Operator ''.'' [Symbol ''parent'', Symbol ''left'']),
      right = RelativeCoordinate (Operator ''.'' [Symbol ''parent'', Symbol ''right'']),
      top' = RelativeCoordinate (Constant (Finite False 0 0)),
      bottom = RelativeCoordinate (Constant (Finite False 10 0))\<rparr>"

definition looping :: RelativeRectangle where
  "looping =
     \<lparr>left = RelativeCoordinate (Symbol ''left''),
      right = RelativeCoordinate (Constant (Finite False 10 0)),
      top' = RelativeCoordinate (Constant (Finite False 0 0)),
      bottom = RelativeCoordinate (Constant (Finite False 10 0))\<rparr>"

text \<open>And \<open>mirrored\<close>, whose four edges are the symbols of the owner's own edges.\<close>

definition mirrored :: RelativeRectangle where
  "mirrored =
     \<lparr>left = RelativeCoordinate (Symbol ''x''),
      right = RelativeCoordinate (Symbol ''right''),
      top' = RelativeCoordinate (Symbol ''y''),
      bottom = RelativeCoordinate (Symbol ''bottom'')\<rparr>"

section \<open>Properties of the classification\<close>

lemma dependsOn_Constant: "dependsOnSymbolsOtherThanThis (Constant v) = False"
  by (simp add: dependsOnSymbolsOtherThanThis.simps [of "Constant v"])

lemma dependsOn_Symbol:
  "dependsOnSymbolsOtherThanThis (Symbol s) = (s \<notin> set canonicalNames)"
  by (simp add: dependsOnSymbolsOtherThanThis.simps [of "Symbol s"] getTypeOf_def
      canonicalNames_def)

lemma dependsOn_Operator:
  "dependsOnSymbolsOtherThanThis (Operator n es) =
     (n = ''.'' \<or> list_ex dependsOnSymbolsOtherThanThis es)"
  by (simp add: dependsOnSymbolsOtherThanThis.simps [of "Operator n es"] list_ex_iff)

lemma dependsOn_Function:
  "dependsOnSymbolsOtherThanThis (Function n es) = list_ex dependsOnSymbolsOtherThanThis es"
  by (simp add: dependsOnSymbolsOtherThanThis.simps [of "Function n es"] list_ex_iff)

lemma dependsOn_iff_not_purelyLocal:
  "dependsOnSymbolsOtherThanThis e = (\<not> purelyLocal e)"
proof (induction e)
  case (Constant v)
  show ?case by (simp add: dependsOn_Constant)
next
  case (Symbol s)
  show ?case by (simp add: dependsOn_Symbol)
next
  case (Operator n es)
  then have "list_ex dependsOnSymbolsOtherThanThis es = (\<not> list_all purelyLocal es)"
    by (simp add: list_ex_iff list_all_iff)
  then show ?case by (simp add: dependsOn_Operator)
next
  case (Function n es)
  then have "list_ex dependsOnSymbolsOtherThanThis es = (\<not> list_all purelyLocal es)"
    by (simp add: list_ex_iff list_all_iff)
  then show ?case by (simp add: dependsOn_Function)
qed

text \<open>
  C3. \<open>isDynamic\<close> answers false exactly when each of the four coordinate expressions is
  purely local in the spec's sense (every leaf symbol one of the six canonical names, no
  operator node named \<open>"."\<close>). An operator node named \<open>"."\<close> is dependent whatever its
  operands are, and a bare symbol is dependent exactly when it is outside the six names.
\<close>

theorem isDynamic_classification:
  "(\<not> isDynamic R) =
     (purelyLocal (getExpression (left R)) \<and> purelyLocal (getExpression (right R))
      \<and> purelyLocal (getExpression (top' R)) \<and> purelyLocal (getExpression (bottom R)))
   \<and> dependsOnSymbolsOtherThanThis (Operator ''.'' es)
   \<and> dependsOnSymbolsOtherThanThis (Symbol s) = (s \<notin> set canonicalNames)"
  by (auto simp: isDynamic_def dependsOn_iff_not_purelyLocal)

text \<open>
  C8. \<open>A == B\<close> holds exactly when the expressions of the left, top, right and bottom
  coordinates are pairwise the same tree, and \<open>A != B\<close> is its negation. No scope and no
  resolved value enters either operator.
\<close>

theorem operator_eq_structural:
  "operator_eq A B =
     (getExpression (left A) = getExpression (left B)
      \<and> getExpression (top' A) = getExpression (top' B)
      \<and> getExpression (right A) = getExpression (right B)
      \<and> getExpression (bottom A) = getExpression (bottom B))
   \<and> operator_neq A B = (\<not> operator_eq A B)"
  by (simp add: operator_eq_def operator_neq_def coordinate_eq_def)


section \<open>Properties of the numbers\<close>

lemma bitlen_0: "bitlen 0 = 0"
  by (simp add: bitlen.simps)

lemma bitlen_Suc_0: "bitlen (Suc 0) = Suc 0"
  by (simp add: bitlen.simps [of "Suc 0"] bitlen_0)

lemma bitlen_numeral: "bitlen (numeral k) = Suc (bitlen (numeral k div 2))"
  by (simp add: bitlen.simps [of "numeral k"])

lemma overflow_sign:
  "overflow f s m e = Infinity s \<or> overflow f s m e = Finite s m e"
  by (simp add: overflow_def)

lemma round_nearest_even_sign:
  "round_nearest_even f s m e = Infinity s
   \<or> (\<exists>q e'. round_nearest_even f s m e = Finite s q e')"
proof -
  have "\<exists>q e'. round_nearest_even f s m e = overflow f s q e'"
    unfolding round_nearest_even_def Let_def by (simp split: if_splits) blast
  then obtain q e' where "round_nearest_even f s m e = overflow f s q e'" by blast
  with overflow_sign [of f s q e'] show ?thesis by auto
qed

lemma aligned_zero: "aligned s 0 e e0 = 0"
  by (simp add: aligned_def signed_def)

lemma aligned_pos: "0 < aligned s m e e0 \<longleftrightarrow> \<not> s \<and> m \<noteq> 0"
  by (auto simp: aligned_def signed_def zero_less_mult_iff)

lemma aligned_neg: "aligned s m e e0 < 0 \<longleftrightarrow> s \<and> m \<noteq> 0"
  by (auto simp: aligned_def signed_def mult_less_0_iff)

lemma ieee_lt_zero_Finite: "ieee_lt zero (Finite s m e) = (\<not> s \<and> m \<noteq> 0)"
  by (simp add: zero_def aligned_zero aligned_pos)

lemma ieee_le_zero_Finite: "ieee_le zero (Finite s m e) = (\<not> s \<or> m = 0)"
proof -
  have "ieee_le zero (Finite s m e) = (0 \<le> aligned s m e (min 0 e))"
    by (auto simp: ieee_le_def zero_def aligned_zero)
  also have "\<dots> = (\<not> aligned s m e (min 0 e) < 0)" by auto
  finally show ?thesis by (simp add: aligned_neg)
qed

lemma to_float_zero: "to_float zero = zero"
  by (simp add: zero_def round_nearest_even_def bitlen_0 binary32_def overflow_def)

lemma ieee_le_zero_zero: "ieee_le zero zero"
  using ieee_le_zero_Finite [of False 0 0] by (simp add: zero_def)

text \<open>
  The clamped extent is never negative and never NaN, whatever the difference is: a NaN, a
  negative value and a zero are replaced by \<open>0.0\<close>, and the cast keeps the sign of a positive
  value (it may round it to zero or to the infinity).
\<close>

lemma to_float_jmax_nonneg: "ieee_le zero (to_float (jmax zero d))"
proof (cases "ieee_lt zero d")
  case False
  then show ?thesis by (simp add: jmax_def to_float_zero ieee_le_zero_zero)
next
  case True
  then have j: "jmax zero d = d" by (simp add: jmax_def)
  show ?thesis
  proof (cases d)
    case (Finite s m e)
    with True have s: "\<not> s" by (simp add: ieee_lt_zero_Finite)
    from round_nearest_even_sign [of binary32 s m e]
    have "ieee_le zero (round_nearest_even binary32 s m e)"
    proof
      assume "round_nearest_even binary32 s m e = Infinity s"
      with s show ?thesis by (simp add: ieee_le_def zero_def)
    next
      assume "\<exists>q e'. round_nearest_even binary32 s m e = Finite s q e'"
      with s show ?thesis by (auto simp: ieee_le_zero_Finite)
    qed
    with Finite j show ?thesis by simp
  next
    case (Infinity s)
    with True have "\<not> s" by (simp add: zero_def)
    with Infinity j show ?thesis by (simp add: ieee_le_def zero_def)
  next
    case NaN
    with True show ?thesis by (simp add: zero_def)
  qed
qed

subsection \<open>Values that a format holds are rounded to themselves\<close>

lemma bitlen_pos: "0 < n \<Longrightarrow> 0 < bitlen n"
  by (simp add: bitlen.simps [of n])

lemma bitlen_double: "0 < n \<Longrightarrow> bitlen (2 * n) = Suc (bitlen n)"
  by (simp add: bitlen.simps [of "2 * n"])

lemma bitlen_shift: "0 < n \<Longrightarrow> bitlen (n * 2 ^ k) = bitlen n + k"
proof (induction k)
  case 0
  show ?case by simp
next
  case (Suc k)
  then have "bitlen (2 * (n * 2 ^ k)) = Suc (bitlen n + k)"
    by (simp add: bitlen_double)
  then show ?case by (simp add: mult.commute mult.left_commute)
qed

lemma overflow_fits:
  "m = 0 \<or> int (bitlen m) + e \<le> emax f \<Longrightarrow> overflow f s m e = Finite s m e"
  by (auto simp: overflow_def)

lemma round_shifted:
  assumes "bitlen m0 \<le> precision f" and "emin f \<le> e0"
    and "m0 = 0 \<or> int (bitlen m0) + e0 \<le> emax f"
  shows "\<exists>i. round_nearest_even f s (m0 * 2 ^ j) (e0 - int j) = Finite s (m0 * 2 ^ i) (e0 - int i)"
proof -
  define sh where "sh = max (int (bitlen (m0 * 2 ^ j)) - int (precision f)) (emin f - (e0 - int j))"
  have bl: "m0 \<noteq> 0 \<Longrightarrow> bitlen (m0 * 2 ^ j) = bitlen m0 + j"
    by (simp add: bitlen_shift)
  have bl0: "m0 = 0 \<Longrightarrow> bitlen (m0 * 2 ^ j) = 0"
    by (simp add: bitlen_0)
  have sh_le: "sh \<le> int j"
    using assms(1,2) bl bl0 unfolding sh_def by (cases "m0 = 0") auto
  show ?thesis
  proof (cases "sh \<le> 0")
    case True
    have "m0 * 2 ^ j = 0 \<or> int (bitlen (m0 * 2 ^ j)) + (e0 - int j) \<le> emax f"
      using assms(3) bl by (cases "m0 = 0") auto
    then have "round_nearest_even f s (m0 * 2 ^ j) (e0 - int j) = Finite s (m0 * 2 ^ j) (e0 - int j)"
      using True unfolding round_nearest_even_def sh_def [symmetric] Let_def
      by (simp add: overflow_fits)
    then show ?thesis by blast
  next
    case False
    define k where "k = nat sh"
    from False sh_le have k: "0 < k" "k \<le> j" "int k = sh" by (simp_all add: k_def)
    have split: "m0 * 2 ^ j = (m0 * 2 ^ (j - k)) * 2 ^ k"
      using k(2) by (simp add: power_add [symmetric])
    have q: "(m0 * 2 ^ j) div 2 ^ k = m0 * 2 ^ (j - k)"
      unfolding split by simp
    have r: "(m0 * 2 ^ j) mod 2 ^ k = 0"
      unfolding split by simp
    have half: "(0::nat) < 2 ^ (k - 1)" by simp
    have blq: "bitlen (m0 * 2 ^ (j - k)) \<le> precision f"
    proof (cases "m0 = 0")
      case True
      then show ?thesis by (simp add: bitlen_0)
    next
      case m0: False
      have "int (bitlen m0 + j) - int (precision f) \<le> sh"
        unfolding sh_def using bl [OF m0] by simp
      with k(2,3) have "bitlen m0 + j - k \<le> precision f" by linarith
      with m0 k(2) show ?thesis by (simp add: bitlen_shift)
    qed
    have fits: "m0 * 2 ^ (j - k) = 0
        \<or> int (bitlen (m0 * 2 ^ (j - k))) + (e0 - int j + sh) \<le> emax f"
    proof (cases "m0 = 0")
      case True
      then show ?thesis by simp
    next
      case m0: False
      with assms(3) k(2,3) show ?thesis by (simp add: bitlen_shift)
    qed
    have "round_nearest_even f s (m0 * 2 ^ j) (e0 - int j)
            = overflow f s (m0 * 2 ^ (j - k)) (e0 - int j + sh)"
      using False half blq
      unfolding round_nearest_even_def sh_def [symmetric] Let_def k_def [symmetric] q r
      by simp
    also have "\<dots> = Finite s (m0 * 2 ^ (j - k)) (e0 - int j + sh)"
      using fits by (rule overflow_fits)
    also have "e0 - int j + sh = e0 - int (j - k)"
      using k(2,3) by simp
    finally show ?thesis by blast
  qed
qed

lemma round_coarser:
  assumes "bitlen (m * 2 ^ j) \<le> precision f" and "emin f \<le> e0"
    and "m * 2 ^ j = 0 \<or> int (bitlen (m * 2 ^ j)) + e0 \<le> emax f"
  shows "round_nearest_even f s m (e0 + int j) = Finite s m (e0 + int j)"
proof -
  have bl: "bitlen m \<le> precision f"
    using assms(1) by (cases "m = 0") (simp_all add: bitlen_0 bitlen_shift)
  have fits: "m = 0 \<or> int (bitlen m) + (e0 + int j) \<le> emax f"
    using assms(3) by (cases "m = 0") (simp_all add: bitlen_shift)
  have "max (int (bitlen m) - int (precision f)) (emin f - (e0 + int j)) \<le> 0"
    using bl assms(2) by simp
  then show ?thesis
    unfolding round_nearest_even_def Let_def using fits by (simp add: overflow_fits)
qed


lemma aligned_valof:
  "e0 \<le> e \<Longrightarrow> real_of_int (aligned s m e e0) = valof (Finite s m e) * 2 powi (- e0)"
proof -
  assume le: "e0 \<le> e"
  have "(2::real) powi e * 2 powi (- e0) = 2 powi (e - e0)"
    by (simp add: power_int_add [symmetric])
  also have "\<dots> = 2 ^ nat (e - e0)"
    using le by (simp add: power_int_nonneg_exp)
  finally have "(2::real) ^ nat (e - e0) = 2 powi e * 2 powi (- e0)" by simp
  then show ?thesis by (simp add: aligned_def)
qed

lemma ieee_eq_valof:
  "ieee_eq (Finite s1 m1 e1) (Finite s2 m2 e2)
     = (valof (Finite s1 m1 e1) = valof (Finite s2 m2 e2))"
proof -
  let ?e = "min e1 e2"
  have "(aligned s1 m1 e1 ?e = aligned s2 m2 e2 ?e)
      = (real_of_int (aligned s1 m1 e1 ?e) = real_of_int (aligned s2 m2 e2 ?e))"
    by simp
  also have "\<dots> = (valof (Finite s1 m1 e1) * 2 powi (- ?e) = valof (Finite s2 m2 e2) * 2 powi (- ?e))"
    by (simp only: aligned_valof [of ?e e1] aligned_valof [of ?e e2] min.cobounded1 min.cobounded2)
  also have "\<dots> = (valof (Finite s1 m1 e1) = valof (Finite s2 m2 e2))"
    by simp
  finally show ?thesis by simp
qed

lemma ieee_lt_valof:
  "ieee_lt (Finite s1 m1 e1) (Finite s2 m2 e2)
     = (valof (Finite s1 m1 e1) < valof (Finite s2 m2 e2))"
proof -
  let ?e = "min e1 e2"
  have pos: "(0::real) < 2 powi (- ?e)" by simp
  have "(aligned s1 m1 e1 ?e < aligned s2 m2 e2 ?e)
      = (real_of_int (aligned s1 m1 e1 ?e) < real_of_int (aligned s2 m2 e2 ?e))"
    by simp
  also have "\<dots> = (valof (Finite s1 m1 e1) * 2 powi (- ?e) < valof (Finite s2 m2 e2) * 2 powi (- ?e))"
    by (simp only: aligned_valof [of ?e e1] aligned_valof [of ?e e2] min.cobounded1 min.cobounded2)
  also have "\<dots> = (valof (Finite s1 m1 e1) < valof (Finite s2 m2 e2))"
    using pos by (simp only: mult_less_cancel_right_pos)
  finally show ?thesis by simp
qed

lemma valof_magnitude:
  "v \<noteq> 0 \<Longrightarrow> valof (Finite (v < 0) (nat \<bar>v\<bar>) e) = real_of_int v * 2 powi e"
  by (simp add: signed_def)

lemma valof_neg: "valof (ieee_neg (Finite s m e)) = - valof (Finite s m e)"
  by (simp add: signed_def)

text \<open>The exact sum of two finite values, before it is rounded.\<close>

lemma aligned_sum_valof:
  "real_of_int (aligned s1 m1 e1 (min e1 e2) + aligned s2 m2 e2 (min e1 e2)) * 2 powi (min e1 e2)
     = valof (Finite s1 m1 e1) + valof (Finite s2 m2 e2)"
proof -
  let ?e = "min e1 e2"
  have c: "(2::real) powi (- ?e) * 2 powi ?e = 1"
    by (simp add: power_int_add [symmetric])
  have "real_of_int (aligned s1 m1 e1 ?e + aligned s2 m2 e2 ?e) * 2 powi ?e
      = (valof (Finite s1 m1 e1) + valof (Finite s2 m2 e2)) * (2 powi (- ?e) * 2 powi ?e)"
    by (simp only: of_int_add aligned_valof [of ?e e1] aligned_valof [of ?e e2]
        min.cobounded1 min.cobounded2 distrib_right mult.assoc)
  then show ?thesis by (simp only: c mult_1_right)
qed

lemma round_exact:
  assumes eq: "ieee_eq (Finite s m e) (Finite s m0 e0)"
    and fmt: "is_format f (Finite s m0 e0)"
  shows "\<exists>q e'. round_nearest_even f s m e = Finite s q e'
           \<and> ieee_eq (Finite s q e') (Finite s m0 e0)"
proof -
  from fmt have rep: "bitlen m0 \<le> precision f" "emin f \<le> e0"
    "m0 = 0 \<or> int (bitlen m0) + e0 \<le> emax f"
    by simp_all
  from eq have al: "signed s m * 2 ^ nat (e - min e e0) = signed s m0 * 2 ^ nat (e0 - min e e0)"
    by (simp add: aligned_def)
  show ?thesis
  proof (cases "e \<le> e0")
    case True
    define j where "j = nat (e0 - e)"
    from True al have "signed s m = signed s m0 * 2 ^ j"
    by (simp add: j_def min_def)
    then have "int m = int (m0 * 2 ^ j)"
      by (cases s) (simp_all add: signed_def)
    then have m: "m = m0 * 2 ^ j" by (simp only: of_nat_eq_iff)
    from True have e: "e = e0 - int j" by (simp add: j_def)
    from round_shifted [OF rep, of s j] obtain i where
      i: "round_nearest_even f s m e = Finite s (m0 * 2 ^ i) (e0 - int i)"
      unfolding m e by blast
    have "ieee_eq (Finite s (m0 * 2 ^ i) (e0 - int i)) (Finite s m0 e0)"
      by (simp add: aligned_def min_def signed_def)
    with i show ?thesis by blast
  next
    case False
    define j where "j = nat (e - e0)"
    from False al have "signed s m * 2 ^ j = signed s m0"
      by (simp add: j_def min_def)
    then have "int (m * 2 ^ j) = int m0"
      by (cases s) (simp_all add: signed_def)
    then have m0: "m0 = m * 2 ^ j" by (simp only: of_nat_eq_iff)
    from False have e: "e = e0 + int j" by (simp add: j_def)
    from round_coarser [of m j f e0 s] rep
    have "round_nearest_even f s m e = Finite s m e"
      unfolding m0 e by blast
    with eq show ?thesis by blast
  qed
qed


lemma is_format_widen: "is_format binary32 v \<Longrightarrow> is_format binary64 v"
  by (cases v) (auto simp: binary32_def binary64_def)

lemma to_float_id: "is_format binary32 v \<Longrightarrow> to_float v = v"
proof (cases v)
  case (Finite s m e)
  assume "is_format binary32 v"
  with Finite have rep: "bitlen m \<le> precision binary32" "emin binary32 \<le> e"
    "m = 0 \<or> int (bitlen m) + e \<le> emax binary32"
    by simp_all
  then have "max (int (bitlen m) - int (precision binary32)) (emin binary32 - e) \<le> 0"
    by simp
  with rep(3) Finite show ?thesis
    by (simp add: round_nearest_even_def overflow_fits)
qed simp_all

lemma add_is_exact_valof:
  assumes "add_is_exact (Finite s1 m1 e1) (Finite s2 m2 e2)"
  obtains s m e where "double_add (Finite s1 m1 e1) (Finite s2 m2 e2) = Finite s m e"
    and "valof (Finite s m e) = valof (Finite s1 m1 e1) + valof (Finite s2 m2 e2)"
proof -
  from assms obtain s m e where S: "double_add (Finite s1 m1 e1) (Finite s2 m2 e2) = Finite s m e"
    and al: "aligned s m e (min e (min e1 e2))
            = aligned s1 m1 e1 (min e (min e1 e2)) + aligned s2 m2 e2 (min e (min e1 e2))"
    by (auto split: ieee.splits)
  let ?E = "min e (min e1 e2)"
  have c: "(2::real) powi (- ?E) \<noteq> 0" by simp
  from al have "real_of_int (aligned s m e ?E)
      = real_of_int (aligned s1 m1 e1 ?E) + real_of_int (aligned s2 m2 e2 ?E)"
    by simp
  then have "valof (Finite s m e) * 2 powi (- ?E)
      = (valof (Finite s1 m1 e1) + valof (Finite s2 m2 e2)) * 2 powi (- ?E)"
    by (simp only: aligned_valof [of ?E e] aligned_valof [of ?E e1] aligned_valof [of ?E e2]
        min.cobounded1 min.cobounded2 min.coboundedI2 distrib_right)
  with c have "valof (Finite s m e) = valof (Finite s1 m1 e1) + valof (Finite s2 m2 e2)"
    by (simp only: mult_cancel_right) simp
  with S show ?thesis using that by blast
qed

lemma extent_exact:
  assumes fw: "is_format binary32 w" and nonneg: "ieee_le zero w" and exact: "add_is_exact x w"
  shows "ieee_eq (to_float (jmax zero (double_sub (double_add x w) x))) w"
proof -
  from exact obtain sx mx ex where x: "x = Finite sx mx ex"
    by (cases x) simp_all
  from exact x obtain sw mw ew where w: "w = Finite sw mw ew"
    by (cases w) simp_all
  from exact obtain s m e where S: "double_add x w = Finite s m e"
    and valS: "valof (Finite s m e) = valof x + valof w"
    unfolding x w by (rule add_is_exact_valof)
  from nonneg have sw: "\<not> sw \<or> mw = 0"
    by (simp add: w ieee_le_zero_Finite)
  define e0 where "e0 = min e ex"
  define v where "v = aligned s m e e0 + aligned (\<not> sx) mx ex e0"
  have D: "double_sub (double_add x w) x =
      (if v = 0 then Finite (s \<and> \<not> sx) 0 e0 else round_nearest_even binary64 (v < 0) (nat \<bar>v\<bar>) e0)"
    by (simp add: S [unfolded x] x double_sub_def ieee_sub_def Let_def v_def e0_def)
  have "real_of_int v * 2 powi e0 = valof (Finite s m e) + valof (Finite (\<not> sx) mx ex)"
    unfolding v_def e0_def by (rule aligned_sum_valof)
  also have "\<dots> = valof w"
    using valS valof_neg [of sx mx ex] by (simp add: x)
  finally have vval: "real_of_int v * 2 powi e0 = valof w" .
  show ?thesis
  proof (cases "v = 0")
    case True
    with vval have "valof w = 0" by simp
    moreover have "valof zero = 0"
      by (simp add: zero_def signed_def)
    ultimately have "ieee_eq zero w"
      unfolding w zero_def by (simp only: ieee_eq_valof)
    moreover from True D have "jmax zero (double_sub (double_add x w) x) = zero"
      by (simp add: jmax_def ieee_lt_zero_Finite)
    ultimately show ?thesis by (simp add: to_float_zero)
  next
    case False
    have wnn: "0 \<le> valof w"
      using sw by (auto simp: w signed_def)
    from False have "real_of_int v * 2 powi e0 \<noteq> 0" by simp
    then have "valof w \<noteq> 0" unfolding vval .
    with wnn have wpos: "0 < valof w" by simp
    with vval have "0 < real_of_int v * 2 powi e0" by simp
    moreover have "(0::real) < 2 powi e0" by simp
    ultimately have "0 < real_of_int v" by (rule zero_less_mult_pos2)
    then have vpos: "0 < v" by simp
    from wpos sw have sw': "\<not> sw" by (auto simp: w signed_def)
    have "valof (Finite (v < 0) (nat \<bar>v\<bar>) e0) = valof w"
      using valof_magnitude [OF False, of e0] vval by simp
    with vpos sw' have "valof (Finite False (nat \<bar>v\<bar>) e0) = valof (Finite False mw ew)"
      by (simp add: w)
    then have eq1: "ieee_eq (Finite False (nat \<bar>v\<bar>) e0) (Finite False mw ew)"
      by (simp only: ieee_eq_valof)
    from fw sw' have f64: "is_format binary64 (Finite False mw ew)"
      and f32: "is_format binary32 (Finite False mw ew)"
      using is_format_widen [of w] by (simp_all add: w)
    from round_exact [OF eq1 f64] obtain q e' where
      q: "round_nearest_even binary64 False (nat \<bar>v\<bar>) e0 = Finite False q e'"
      and eq2: "ieee_eq (Finite False q e') (Finite False mw ew)"
      by blast
    from False vpos D q have Dq: "double_sub (double_add x w) x = Finite False q e'"
      by simp
    from eq2 have "valof (Finite False q e') = valof (Finite False mw ew)"
      by (simp only: ieee_eq_valof)
    with wpos sw' have "valof zero < valof (Finite False q e')"
      by (simp add: w zero_def signed_def)
    then have "ieee_lt zero (Finite False q e')"
      unfolding zero_def by (simp only: ieee_lt_valof)
    with Dq have j: "jmax zero (double_sub (double_add x w) x) = Finite False q e'"
      by (simp add: jmax_def)
    from round_exact [OF eq2 f32] obtain q2 e2 where
      "round_nearest_even binary32 False q e' = Finite False q2 e2"
      and "ieee_eq (Finite False q2 e2) (Finite False mw ew)"
      by blast
    with j sw' show ?thesis by (simp add: w)
  qed
qed


section \<open>Evaluating the examples\<close>

lemma evaluate_Symbol_numeral:
  "evaluate other (numeral k) scope (Symbol s) =
     (case getSymbolValue scope s of
        Inl err \<Rightarrow> Inl err
      | Inr e \<Rightarrow> evaluate other (pred_numeral k) scope e)"
  by (simp add: numeral_eq_Suc)

lemma neverFixed_numeral:
  "neverFixed L C rectangle (numeral k) c =
     (case resolve L rectangle (Some (ComponentScope C c)) of
        Inl err \<Rightarrow> False
      | Inr r \<Rightarrow>
          getSmallestIntegerContainer L r \<noteq> getBounds C c
          \<and> neverFixed L C rectangle (pred_numeral k)
                (setBounds C c (getSmallestIntegerContainer L r)))"
  by (simp add: numeral_eq_Suc)

lemmas ieee_eval =
  double_add_def double_sub_def double_mul_def float_add_def ieee_sub_def binary64_def
  binary32_def round_nearest_even_def overflow_def aligned_def signed_def Let_def
  bitlen_0 bitlen_Suc_0 bitlen_numeral jmax_def zero_def ieee_le_def

lemmas resolve_eval =
  plainLibrary_def RelativeCoordinate_resolve_def RelativeRectangleLocalScope_def
  getTypeOf_def evaluate_Symbol_numeral applyOperator_def

lemmas owner_eval =
  plainComponent_def baseComponent_def ownerScope_def integerContainer_def double_of_int_def

lemmas dynamic_eval =
  isDynamic_def dependsOn_Constant dependsOn_Symbol dependsOn_Operator dependsOn_Function
  canonicalNames_def operator_eq_def coordinate_eq_def

section \<open>Resolution\<close>

text \<open>
  C1. Whenever the four coordinates resolve (to \<open>l\<close>, \<open>r\<close>, \<open>t\<close>, \<open>b\<close>) in the scope that is
  used, which is the given one or, for the null scope, the local scope of the rectangle,
  \<open>resolve\<close> returns the rectangle with x the resolved left and y the resolved top, each cast
  to \<open>float\<close>, with width \<open>max (0, r - l)\<close> and height \<open>max (0, b - t)\<close>, cast to \<open>float\<close>;
  width and height are at least zero (and no NaN), whatever \<open>r - l\<close> and \<open>b - t\<close> are.
\<close>

theorem resolve_rectangle:
  assumes "used = (case scope of None \<Rightarrow> RelativeRectangleLocalScope L R | Some sc \<Rightarrow> sc)"
    and "coordinate_resolve L (left R) used = Inr l"
    and "coordinate_resolve L (right R) used = Inr r"
    and "coordinate_resolve L (top' R) used = Inr t"
    and "coordinate_resolve L (bottom R) used = Inr b"
  shows "resolve L R scope =
           Inr \<lparr>getX = to_float l, getY = to_float t,
                getWidth = to_float (jmax zero (double_sub r l)),
                getHeight = to_float (jmax zero (double_sub b t))\<rparr>
         \<and> ieee_le zero (to_float (jmax zero (double_sub r l)))
         \<and> ieee_le zero (to_float (jmax zero (double_sub b t)))"
proof -
  have "resolve L R (Some used) =
           Inr \<lparr>getX = to_float l, getY = to_float t,
                getWidth = to_float (jmax zero (double_sub r l)),
                getHeight = to_float (jmax zero (double_sub b t))\<rparr>"
    using assms(2-5) by simp
  moreover have "resolve L R scope = resolve L R (Some used)"
    using assms(1) by (cases scope) simp_all
  ultimately show ?thesis by (simp add: to_float_jmax_nonneg)
qed

theorem resolve_rectangle_witness:
  "coordinate_resolve plainLibrary (left clamped)
       (RelativeRectangleLocalScope plainLibrary clamped) = Inr (Finite False 5 0)
   \<and> coordinate_resolve plainLibrary (right clamped)
       (RelativeRectangleLocalScope plainLibrary clamped) = Inr (Finite False 3 0)
   \<and> coordinate_resolve plainLibrary (top' clamped)
       (RelativeRectangleLocalScope plainLibrary clamped) = Inr (Finite False 1 0)
   \<and> coordinate_resolve plainLibrary (bottom clamped)
       (RelativeRectangleLocalScope plainLibrary clamped) = Inr (Finite False 4 0)
   \<and> resolve plainLibrary clamped None
       = Inr \<lparr>getX = Finite False 5 0, getY = Finite False 1 0,
              getWidth = Finite False 0 0, getHeight = Finite False 3 0\<rparr>
   \<and> ieee_le zero (Finite False 0 0) \<and> ieee_le zero (Finite False 3 0)"
proof -
  let ?S = "RelativeRectangleLocalScope plainLibrary clamped"
  have u: "?S = (case None of None \<Rightarrow> RelativeRectangleLocalScope plainLibrary clamped
                 | Some sc \<Rightarrow> sc)"
    by simp
  have l: "coordinate_resolve plainLibrary (left clamped) ?S = Inr (Finite False 5 0)"
    by (simp add: clamped_def resolve_eval)
  have r: "coordinate_resolve plainLibrary (right clamped) ?S = Inr (Finite False 3 0)"
    by (simp add: clamped_def resolve_eval)
  have t: "coordinate_resolve plainLibrary (top' clamped) ?S = Inr (Finite False 1 0)"
    by (simp add: clamped_def resolve_eval)
  have b: "coordinate_resolve plainLibrary (bottom clamped) ?S = Inr (Finite False 4 0)"
    by (simp add: clamped_def resolve_eval ieee_eval)
  have w: "to_float (jmax zero (double_sub (Finite False 3 0) (Finite False 5 0)))
             = Finite False 0 0"
    by (simp add: ieee_eval)
  have h: "to_float (jmax zero (double_sub (Finite False 4 0) (Finite False 1 0)))
             = Finite False 3 0"
    by (simp add: ieee_eval)
  have x: "to_float (Finite False 5 0) = Finite False 5 0"
    "to_float (Finite False 1 0) = Finite False 1 0"
    by (simp_all add: ieee_eval)
  from resolve_rectangle [OF u l r t b] l r t b
  show ?thesis unfolding w h x by simp
qed

text \<open>
  C9. With the null scope \<open>resolve\<close> is \<open>resolve\<close> with the local scope of the rectangle. In
  that scope \<open>x\<close> and \<open>left\<close> are the rectangle's own left expression, \<open>y\<close> and \<open>top\<close> its top
  expression, \<open>right\<close> its right expression and \<open>bottom\<close> its bottom expression; any other
  symbol is looked up in the base scope.
\<close>

theorem resolve_null_scope:
  "resolve L R None = resolve L R (Some (RelativeRectangleLocalScope L R))
   \<and> getSymbolValue (RelativeRectangleLocalScope L R) symbol =
       (if symbol = ''x'' \<or> symbol = ''left'' then Inr (getExpression (left R))
        else if symbol = ''y'' \<or> symbol = ''top'' then Inr (getExpression (top' R))
        else if symbol = ''right'' then Inr (getExpression (right R))
        else if symbol = ''bottom'' then Inr (getExpression (bottom R))
        else base_getSymbolValue L symbol)"
  by (simp add: RelativeRectangleLocalScope_def getTypeOf_def)

text \<open>
  C7. \<open>moveToAbsolute\<close> moves the four coordinates in the order left, right, top, bottom.
  Each call gets the coordinate as it was before \<open>moveToAbsolute\<close> and its own target only:
  the x of the new rectangle for left, its right edge for right, its y for top, its bottom
  edge for bottom. A call that throws ends the function with the earlier coordinates moved
  and the later ones untouched.
\<close>

theorem moveToAbsolute_edges:
  "moveToAbsolute L R newPos scope =
     (case coordinate_moveToAbsolute L (left R) (getX newPos) scope of
        Inl err \<Rightarrow> (Some err, R)
      | Inr l \<Rightarrow>
     (case coordinate_moveToAbsolute L (right R) (getRight newPos) scope of
        Inl err \<Rightarrow> (Some err, R\<lparr>left := l\<rparr>)
      | Inr r \<Rightarrow>
     (case coordinate_moveToAbsolute L (top' R) (getY newPos) scope of
        Inl err \<Rightarrow> (Some err, R\<lparr>left := l, right := r\<rparr>)
      | Inr t \<Rightarrow>
     (case coordinate_moveToAbsolute L (bottom R) (getBottom newPos) scope of
        Inl err \<Rightarrow> (Some err, R\<lparr>left := l, right := r, top' := t\<rparr>)
      | Inr b \<Rightarrow> (None, \<lparr>left = l, right = r, top' = t, bottom = b\<rparr>)))))"
  by (simp add: moveToAbsolute_def Let_def split: sum.splits)


section \<open>The bounded loop\<close>

lemma applyLoop_exit:
  "i \<le> 0 \<Longrightarrow>
   applyLoop L C rectangle i c =
     \<lparr>component = c, status = AssertFalse, calls = [], iterations = 0\<rparr>"
  by (simp add: applyLoop.simps [of L C rectangle i c])

lemma applyLoop_thrown:
  "0 < i \<Longrightarrow> resolve L rectangle (Some (ComponentScope C c)) = Inl err \<Longrightarrow>
   applyLoop L C rectangle i c =
     \<lparr>component = c, status = Thrown err, calls = [], iterations = 1\<rparr>"
  by (simp add: applyLoop.simps [of L C rectangle i c])

lemma applyLoop_fixed:
  "0 < i \<Longrightarrow> resolve L rectangle (Some (ComponentScope C c)) = Inr r \<Longrightarrow>
   getSmallestIntegerContainer L r = getBounds C c \<Longrightarrow>
   applyLoop L C rectangle i c =
     \<lparr>component = c, status = FixedPoint, calls = [], iterations = 1\<rparr>"
  by (simp add: applyLoop.simps [of L C rectangle i c])

lemma applyLoop_step:
  "0 < i \<Longrightarrow> resolve L rectangle (Some (ComponentScope C c)) = Inr r \<Longrightarrow>
   getSmallestIntegerContainer L r \<noteq> getBounds C c \<Longrightarrow>
   applyLoop L C rectangle i c =
     (applyLoop L C rectangle (i - 1) (setBounds C c (getSmallestIntegerContainer L r)))
       \<lparr>calls := (c, getSmallestIntegerContainer L r)
           # calls (applyLoop L C rectangle (i - 1)
                     (setBounds C c (getSmallestIntegerContainer L r))),
        iterations := Suc (iterations
           (applyLoop L C rectangle (i - 1)
              (setBounds C c (getSmallestIntegerContainer L r))))\<rparr>"
  by (simp add: applyLoop.simps [of L C rectangle i c] Let_def)

lemma applyLoop_cases:
  fixes i :: int
  obtains (exit) "i \<le> 0"
  | (thrown) err where "0 < i" "resolve L rectangle (Some (ComponentScope C c)) = Inl err"
  | (fixed) r where "0 < i" "resolve L rectangle (Some (ComponentScope C c)) = Inr r"
      "getSmallestIntegerContainer L r = getBounds C c"
  | (step) r where "0 < i" "resolve L rectangle (Some (ComponentScope C c)) = Inr r"
      "getSmallestIntegerContainer L r \<noteq> getBounds C c"
proof (cases "0 < i")
  case False
  then show ?thesis using exit by simp
next
  case True
  show ?thesis
  proof (cases "resolve L rectangle (Some (ComponentScope C c))")
    case (Inl err)
    with True show ?thesis using thrown by blast
  next
    case (Inr r)
    with True show ?thesis using fixed step by blast
  qed
qed

lemma applyLoop_iterations:
  "iterations (applyLoop L C rectangle (int n) c) \<le> n
   \<and> length (calls (applyLoop L C rectangle (int n) c))
       \<le> iterations (applyLoop L C rectangle (int n) c)"
proof (induction n arbitrary: c)
  case 0
  show ?case by (simp add: applyLoop_exit)
next
  case (Suc n)
  show ?case
  proof (cases rule: applyLoop_cases
      [where i = "int (Suc n)" and L = L and rectangle = rectangle and C = C and c = c])
    case exit
    then show ?thesis by simp
  next
    case (thrown err)
    then show ?thesis by (simp add: applyLoop_thrown)
  next
    case (fixed r)
    then show ?thesis by (simp add: applyLoop_fixed)
  next
    case (step r)
    have "int (Suc n) - 1 = int n" by simp
    with Suc [of "setBounds C c (getSmallestIntegerContainer L r)"] step
    show ?thesis by (simp add: applyLoop_step)
  qed
qed

lemma applyLoop_neverFixed:
  "neverFixed L C rectangle n c \<Longrightarrow>
     status (applyLoop L C rectangle (int n) c) = AssertFalse
     \<and> iterations (applyLoop L C rectangle (int n) c) = n
     \<and> length (calls (applyLoop L C rectangle (int n) c)) = n"
proof (induction n arbitrary: c)
  case 0
  show ?case by (simp add: applyLoop_exit)
next
  case (Suc n)
  from Suc.prems obtain r where r: "resolve L rectangle (Some (ComponentScope C c)) = Inr r"
    "getSmallestIntegerContainer L r \<noteq> getBounds C c"
    "neverFixed L C rectangle n (setBounds C c (getSmallestIntegerContainer L r))"
    by (auto split: sum.splits)
  have "int (Suc n) - 1 = int n" by simp
  with Suc.IH [OF r(3)] r(1,2) show ?case
    by (simp add: applyLoop_step)
qed

lemma applyLoop_calls:
  "list_all (\<lambda>(c', b). \<exists>r. resolve L rectangle (Some (ComponentScope C c')) = Inr r
                 \<and> b = getSmallestIntegerContainer L r \<and> b \<noteq> getBounds C c')
     (calls (applyLoop L C rectangle (int n) c))"
proof (induction n arbitrary: c)
  case 0
  show ?case by (simp add: applyLoop_exit)
next
  case (Suc n)
  show ?case
  proof (cases rule: applyLoop_cases
      [where i = "int (Suc n)" and L = L and rectangle = rectangle and C = C and c = c])
    case exit
    then show ?thesis by simp
  next
    case (thrown err)
    then show ?thesis by (simp add: applyLoop_thrown)
  next
    case (fixed r)
    then show ?thesis by (simp add: applyLoop_fixed)
  next
    case (step r)
    have "int (Suc n) - 1 = int n" by simp
    with Suc [of "setBounds C c (getSmallestIntegerContainer L r)"] step
    show ?thesis by (simp add: applyLoop_step)
  qed
qed

text \<open>
  C4. \<open>applyToComponentBounds\<close> returns after at most four passes through the loop body and
  at most four calls of \<open>setBounds\<close> (given that \<open>resolve\<close> and \<open>setBounds\<close> return). When no
  fixed point is reached in four resolutions, it makes exactly four passes, each with a call
  of \<open>setBounds\<close>, and ends at the \<open>jassertfalse\<close> that marks a recursive reference.
\<close>

theorem applyToComponentBounds_terminates:
  "iterations (applyToComponentBounds L C rectangle c) \<le> 4
   \<and> length (calls (applyToComponentBounds L C rectangle c)) \<le> 4
   \<and> (neverFixed L C rectangle 4 c \<longrightarrow>
        status (applyToComponentBounds L C rectangle c) = AssertFalse
        \<and> iterations (applyToComponentBounds L C rectangle c) = 4
        \<and> length (calls (applyToComponentBounds L C rectangle c)) = 4)"
proof -
  have four: "(4::int) = int 4" by simp
  from applyLoop_iterations [of L C rectangle 4 c]
  have "iterations (applyToComponentBounds L C rectangle c) \<le> 4
    \<and> length (calls (applyToComponentBounds L C rectangle c)) \<le> 4"
    unfolding applyToComponentBounds_def four by linarith
  moreover from applyLoop_neverFixed [of L C rectangle 4 c]
  have "neverFixed L C rectangle 4 c \<longrightarrow>
        status (applyToComponentBounds L C rectangle c) = AssertFalse
        \<and> iterations (applyToComponentBounds L C rectangle c) = 4
        \<and> length (calls (applyToComponentBounds L C rectangle c)) = 4"
    unfolding applyToComponentBounds_def four by blast
  ultimately show ?thesis by blast
qed

theorem applyToComponentBounds_terminates_witness:
  "neverFixed plainLibrary plainComponent growing 4
      \<lparr>bounds = Rectangle_int 0 0 10 10, held = None\<rparr>
   \<and> status (applyToComponentBounds plainLibrary plainComponent growing
        \<lparr>bounds = Rectangle_int 0 0 10 10, held = None\<rparr>) = AssertFalse
   \<and> iterations (applyToComponentBounds plainLibrary plainComponent growing
        \<lparr>bounds = Rectangle_int 0 0 10 10, held = None\<rparr>) = 4
   \<and> length (calls (applyToComponentBounds plainLibrary plainComponent growing
        \<lparr>bounds = Rectangle_int 0 0 10 10, held = None\<rparr>)) = 4"
proof -
  have nf: "neverFixed plainLibrary plainComponent growing 4
      \<lparr>bounds = Rectangle_int 0 0 10 10, held = None\<rparr>"
    by (simp add: neverFixed_numeral growing_def resolve_eval owner_eval ieee_eval)
  with applyToComponentBounds_terminates [of plainLibrary plainComponent growing
      "\<lparr>bounds = Rectangle_int 0 0 10 10, held = None\<rparr>"]
  show ?thesis by blast
qed

text \<open>
  C5. In any pass through the loop body (\<open>0 < i\<close>), when the resolved integer bounds equal
  the current bounds of the owner, the function returns at once: no call of \<open>setBounds\<close> is
  made and the state of the owner is the one it started in. Every call of \<open>setBounds\<close> that
  \<open>applyToComponentBounds\<close> makes is made with the bounds resolved in the state of the call,
  and these differ from the bounds the owner has in that state.
\<close>

theorem applyToComponentBounds_fixed_point:
  "(0 < i \<and> resolve L rectangle (Some (ComponentScope C c)) = Inr r
      \<and> getSmallestIntegerContainer L r = getBounds C c \<longrightarrow>
      applyLoop L C rectangle i c =
        \<lparr>component = c, status = FixedPoint, calls = [], iterations = 1\<rparr>)
   \<and> (resolve L rectangle (Some (ComponentScope C c)) = Inr r
      \<and> getSmallestIntegerContainer L r = getBounds C c \<longrightarrow>
      applyToComponentBounds L C rectangle c =
        \<lparr>component = c, status = FixedPoint, calls = [], iterations = 1\<rparr>)
   \<and> list_all (\<lambda>(c', b). \<exists>r'. resolve L rectangle (Some (ComponentScope C c')) = Inr r'
                  \<and> b = getSmallestIntegerContainer L r' \<and> b \<noteq> getBounds C c')
        (calls (applyToComponentBounds L C rectangle c0))"
proof -
  have four: "(4::int) = int 4" by simp
  have "list_all (\<lambda>(c', b). \<exists>r'. resolve L rectangle (Some (ComponentScope C c')) = Inr r'
                  \<and> b = getSmallestIntegerContainer L r' \<and> b \<noteq> getBounds C c')
        (calls (applyToComponentBounds L C rectangle c0))"
    unfolding applyToComponentBounds_def four by (rule applyLoop_calls)
  then show ?thesis
    by (simp add: applyToComponentBounds_def applyLoop_fixed)
qed


theorem applyToComponentBounds_fixed_point_witness:
  "(0::int) < 4
   \<and> resolve plainLibrary settled
        (Some (ComponentScope plainComponent \<lparr>bounds = Rectangle_int 0 0 10 10, held = None\<rparr>))
       = Inr \<lparr>getX = Finite False 0 0, getY = Finite False 0 0,
              getWidth = Finite False 10 0, getHeight = Finite False 10 0\<rparr>
   \<and> getSmallestIntegerContainer plainLibrary
        \<lparr>getX = Finite False 0 0, getY = Finite False 0 0,
         getWidth = Finite False 10 0, getHeight = Finite False 10 0\<rparr>
       = getBounds plainComponent \<lparr>bounds = Rectangle_int 0 0 10 10, held = None\<rparr>
   \<and> applyLoop plainLibrary plainComponent settled 4
        \<lparr>bounds = Rectangle_int 0 0 10 10, held = None\<rparr>
       = \<lparr>component = \<lparr>bounds = Rectangle_int 0 0 10 10, held = None\<rparr>,
          status = FixedPoint, calls = [], iterations = 1\<rparr>
   \<and> applyToComponentBounds plainLibrary plainComponent settled
        \<lparr>bounds = Rectangle_int 0 0 10 10, held = None\<rparr>
       = \<lparr>component = \<lparr>bounds = Rectangle_int 0 0 10 10, held = None\<rparr>,
          status = FixedPoint, calls = [], iterations = 1\<rparr>"
proof -
  let ?c = "\<lparr>bounds = Rectangle_int 0 0 10 10, held = None\<rparr>"
  let ?r = "\<lparr>getX = Finite False 0 0, getY = Finite False 0 0,
         getWidth = Finite False 10 0, getHeight = Finite False 10 0\<rparr>"
  have r: "resolve plainLibrary settled (Some (ComponentScope plainComponent ?c)) = Inr ?r"
    by (simp add: settled_def resolve_eval owner_eval ieee_eval)
  have b: "getSmallestIntegerContainer plainLibrary ?r = getBounds plainComponent ?c"
    by (simp add: resolve_eval owner_eval ieee_eval)
  from applyToComponentBounds_fixed_point
    [of 4 plainLibrary settled plainComponent ?c ?r ?c] r b
  show ?thesis by simp
qed

section \<open>Applying a rectangle to a component\<close>

text \<open>
  C6. A dynamic rectangle, applied to an owner that has no positioner of this class or has
  one whose rectangle is not equal to it, gets a new positioner with a copy of the rectangle,
  set on the owner in place of the old one, and this positioner is applied once. Applied to
  an owner whose positioner holds an equal rectangle, it changes nothing. A rectangle that is
  not dynamic has the owner's positioner set to none and then the owner's bounds set once,
  to the integer container of the rectangle resolved with the null scope; if that resolution
  throws, the positioner has been removed and the bounds are not set.
\<close>

theorem applyToComponent_lifecycle:
  "(isDynamic R \<and> dynamic_cast (getPositioner C c) = None \<longrightarrow>
      applyToComponent L C R c =
        positioner_apply C R
          (setPositioner C c (Some (RelativeRectangleComponentPositioner R))))
   \<and> (isDynamic R \<and> dynamic_cast (getPositioner C c) = Some cur \<and> \<not> operator_eq cur R \<longrightarrow>
      applyToComponent L C R c =
        positioner_apply C R
          (setPositioner C c (Some (RelativeRectangleComponentPositioner R))))
   \<and> (isDynamic R \<and> dynamic_cast (getPositioner C c) = Some cur \<and> operator_eq cur R \<longrightarrow>
      applyToComponent L C R c = (None, c))
   \<and> (\<not> isDynamic R \<and> resolve L R None = Inr r \<longrightarrow>
      applyToComponent L C R c =
        (None, setBounds C (setPositioner C c None) (getSmallestIntegerContainer L r)))
   \<and> (\<not> isDynamic R \<and> resolve L R None = Inl err \<longrightarrow>
      applyToComponent L C R c = (Some err, setPositioner C c None))"
  by (simp add: applyToComponent_def isUsingRectangle_def Let_def)

theorem applyToComponent_lifecycle_witness:
  "isDynamic anchored
   \<and> dynamic_cast (getPositioner plainComponent
        \<lparr>bounds = Rectangle_int 5 5 5 5, held = Some (OtherPositioner ())\<rparr>) = None
   \<and> applyToComponent plainLibrary plainComponent anchored
        \<lparr>bounds = Rectangle_int 5 5 5 5, held = Some (OtherPositioner ())\<rparr>
       = positioner_apply plainComponent anchored
           \<lparr>bounds = Rectangle_int 5 5 5 5,
            held = Some (RelativeRectangleComponentPositioner anchored)\<rparr>
   \<and> dynamic_cast (getPositioner plainComponent
        \<lparr>bounds = Rectangle_int 5 5 5 5,
         held = Some (RelativeRectangleComponentPositioner
                        (anchored\<lparr>bottom := RelativeCoordinate (Symbol ''height'')\<rparr>))\<rparr>)
       = Some (anchored\<lparr>bottom := RelativeCoordinate (Symbol ''height'')\<rparr>)
   \<and> \<not> operator_eq (anchored\<lparr>bottom := RelativeCoordinate (Symbol ''height'')\<rparr>) anchored
   \<and> applyToComponent plainLibrary plainComponent anchored
        \<lparr>bounds = Rectangle_int 5 5 5 5,
         held = Some (RelativeRectangleComponentPositioner
                        (anchored\<lparr>bottom := RelativeCoordinate (Symbol ''height'')\<rparr>))\<rparr>
       = positioner_apply plainComponent anchored
           \<lparr>bounds = Rectangle_int 5 5 5 5,
            held = Some (RelativeRectangleComponentPositioner anchored)\<rparr>
   \<and> dynamic_cast (getPositioner plainComponent
        \<lparr>bounds = Rectangle_int 5 5 5 5,
         held = Some (RelativeRectangleComponentPositioner anchored)\<rparr>) = Some anchored
   \<and> operator_eq anchored anchored
   \<and> applyToComponent plainLibrary plainComponent anchored
        \<lparr>bounds = Rectangle_int 5 5 5 5,
         held = Some (RelativeRectangleComponentPositioner anchored)\<rparr>
       = (None, \<lparr>bounds = Rectangle_int 5 5 5 5,
                 held = Some (RelativeRectangleComponentPositioner anchored)\<rparr>)
   \<and> \<not> isDynamic settled
   \<and> resolve plainLibrary settled None
       = Inr \<lparr>getX = Finite False 0 0, getY = Finite False 0 0,
              getWidth = Finite False 10 0, getHeight = Finite False 10 0\<rparr>
   \<and> applyToComponent plainLibrary plainComponent settled
        \<lparr>bounds = Rectangle_int 5 5 5 5,
         held = Some (RelativeRectangleComponentPositioner anchored)\<rparr>
       = (None, \<lparr>bounds = Rectangle_int 0 0 10 10, held = None\<rparr>)
   \<and> \<not> isDynamic looping
   \<and> resolve plainLibrary looping None = Inl CyclicDependencyError
   \<and> applyToComponent plainLibrary plainComponent looping
        \<lparr>bounds = Rectangle_int 5 5 5 5,
         held = Some (RelativeRectangleComponentPositioner anchored)\<rparr>
       = (Some CyclicDependencyError, \<lparr>bounds = Rectangle_int 5 5 5 5, held = None\<rparr>)"
proof -
  let ?other = "anchored\<lparr>bottom := RelativeCoordinate (Symbol ''height'')\<rparr>"
  let ?c0 = "\<lparr>bounds = Rectangle_int 5 5 5 5, held = Some (OtherPositioner ())\<rparr>"
  let ?c1 = "\<lparr>bounds = Rectangle_int 5 5 5 5,
         held = Some (RelativeRectangleComponentPositioner ?other)\<rparr>"
  let ?c2 = "\<lparr>bounds = Rectangle_int 5 5 5 5,
         held = Some (RelativeRectangleComponentPositioner anchored)\<rparr>"
  let ?r = "\<lparr>getX = Finite False 0 0, getY = Finite False 0 0,
              getWidth = Finite False 10 0, getHeight = Finite False 10 0\<rparr>"
  have d: "isDynamic anchored"
    by (simp add: anchored_def dynamic_eval)
  have c0: "dynamic_cast (getPositioner plainComponent ?c0) = None"
    by (simp add: owner_eval)
  have c1: "dynamic_cast (getPositioner plainComponent ?c1) = Some ?other"
    by (simp add: owner_eval)
  have ne: "\<not> operator_eq ?other anchored"
    by (simp add: anchored_def dynamic_eval)
  have c2: "dynamic_cast (getPositioner plainComponent ?c2) = Some anchored"
    by (simp add: owner_eval)
  have eq: "operator_eq anchored anchored"
    by (simp add: dynamic_eval)
  have nd: "\<not> isDynamic settled"
    by (simp add: settled_def dynamic_eval)
  have rs: "resolve plainLibrary settled None = Inr ?r"
    by (simp add: settled_def resolve_eval ieee_eval)
  have nl: "\<not> isDynamic looping"
    by (simp add: looping_def dynamic_eval)
  have rl: "resolve plainLibrary looping None = Inl CyclicDependencyError"
    by (simp add: looping_def resolve_eval)
  have sp: "setPositioner plainComponent ?c0 (Some (RelativeRectangleComponentPositioner anchored)) = ?c2"
    "setPositioner plainComponent ?c1 (Some (RelativeRectangleComponentPositioner anchored)) = ?c2"
    "setPositioner plainComponent ?c2 None = \<lparr>bounds = Rectangle_int 5 5 5 5, held = None\<rparr>"
    "setBounds plainComponent \<lparr>bounds = Rectangle_int 5 5 5 5, held = None\<rparr>
       (getSmallestIntegerContainer plainLibrary ?r) = \<lparr>bounds = Rectangle_int 0 0 10 10, held = None\<rparr>"
    by (simp_all add: owner_eval resolve_eval ieee_eval)
  from applyToComponent_lifecycle [of anchored plainComponent ?c0 plainLibrary]
    applyToComponent_lifecycle [of anchored plainComponent ?c1 plainLibrary ?other]
    applyToComponent_lifecycle [of anchored plainComponent ?c2 plainLibrary anchored]
    applyToComponent_lifecycle [of settled plainComponent ?c2 plainLibrary _ ?r]
    applyToComponent_lifecycle [of looping plainComponent ?c2 plainLibrary _ _ CyclicDependencyError]
    d c0 c1 ne c2 eq nd rs nl rl
  show ?thesis unfolding sp by simp
qed


section \<open>Text form\<close>

lemma symbolParse_text:
  assumes "list_all isWhitespace ws" "s = c # t" "\<not> isWhitespace c" "CHR '','' \<notin> set s"
  shows "symbolParse (ws @ s) = Inr (Symbol s, [])"
    and "symbolParse (ws @ s @ '', '' @ further) = Inr (Symbol s, '', '' @ further)"
proof -
  from assms(1) have ws: "\<And>x. x \<in> set ws \<Longrightarrow> isWhitespace x"
    by (simp add: list_all_iff)
  have d: "dropWhile isWhitespace (ws @ s @ rest) = s @ rest" for rest
    using ws assms(2,3) by (simp add: dropWhile_append2)
  have all: "\<forall>x\<in>set s. x \<noteq> CHR '',''"
    using assms(4) by auto
  have tk0: "takeWhile (\<lambda>c. c \<noteq> CHR '','') s = s" "dropWhile (\<lambda>c. c \<noteq> CHR '','') s = []"
    using all by simp_all
  have tk: "takeWhile (\<lambda>c. c \<noteq> CHR '','') (s @ CHR '','' # rest) = s" for rest
    by (simp add: takeWhile_tail tk0)
  have dr: "dropWhile (\<lambda>c. c \<noteq> CHR '','') (s @ CHR '','' # rest) = CHR '','' # rest" for rest
    by (simp add: dropWhile_append3 tk0)
  show "symbolParse (ws @ s) = Inr (Symbol s, [])"
    using d [of "[]"] by (simp add: symbolParse_def tk0)
  show "symbolParse (ws @ s @ '', '' @ further) = Inr (Symbol s, '', '' @ further)"
    using d [of "'', '' @ further"] tk [of "CHR '' '' # further"] dr [of "CHR '' '' # further"]
    by (simp add: symbolParse_def)
qed

text \<open>
  What \<open>skipComma\<close> makes of the text that the parser leaves: wherever the parser stopped
  around the separator, the text after \<open>skipComma\<close> is the further text, with at most
  whitespace in front of it.
\<close>

lemma skipComma_after_separator:
  assumes "rest = '', '' @ c # further \<or> rest = CHR '' '' # c # further \<or> rest = c # further"
    and "\<not> isWhitespace c" and "c \<noteq> CHR '',''"
  shows "\<exists>ws. list_all isWhitespace ws \<and> skipComma rest = ws @ c # further"
proof -
  have blank: "isWhitespace (CHR '' '')" and comma: "\<not> isWhitespace (CHR '','')"
    by (simp_all add: isWhitespace_def)
  from assms(1) consider (before) "rest = '', '' @ c # further"
    | (between) "rest = CHR '' '' # c # further" | (behind) "rest = c # further"
    by blast
  then show ?thesis
  proof cases
    case before
    then have "skipComma rest = [CHR '' ''] @ c # further"
      by (simp add: skipComma_def findEndOfWhitespace_def comma)
    moreover have "list_all isWhitespace [CHR '' '']" by (simp add: blank)
    ultimately show ?thesis by blast
  next
    case between
    then have "skipComma rest = [] @ c # further"
      using assms(2,3) by (simp add: skipComma_def findEndOfWhitespace_def blank)
    moreover have "list_all isWhitespace []" by simp
    ultimately show ?thesis by blast
  next
    case behind
    then have "skipComma rest = [] @ c # further"
      using assms(2,3) by (simp add: skipComma_def findEndOfWhitespace_def)
    moreover have "list_all isWhitespace []" by simp
    ultimately show ?thesis by blast
  qed
qed

lemma readsBack_first_char:
  assumes "readsBack L e"
  obtains c t where "expression_toString L e = c # t" "\<not> isWhitespace c" "c \<noteq> CHR '',''"
  using assms unfolding readsBack_def by blast

lemma readsBack_last:
  assumes "readsBack L e" and "list_all isWhitespace ws"
  shows "\<exists>rest. expression_parse L (ws @ expression_toString L e) = Inr (e, rest)"
  using assms unfolding readsBack_def by blast

lemma readsBack_then_skipComma:
  assumes "readsBack L e" and "list_all isWhitespace ws"
    and "\<not> isWhitespace c" and "c \<noteq> CHR '',''"
  shows "\<exists>rest ws'. expression_parse L (ws @ expression_toString L e @ '', '' @ c # further)
             = Inr (e, rest)
           \<and> list_all isWhitespace ws' \<and> skipComma rest = ws' @ c # further"
proof -
  from assms obtain rest where
    p: "expression_parse L (ws @ expression_toString L e @ '', '' @ c # further) = Inr (e, rest)"
    and stop: "rest = '', '' @ c # further \<or> rest = CHR '' '' # c # further
               \<or> rest = c # further"
    unfolding readsBack_def by blast
  from skipComma_after_separator [OF stop assms(3,4)] p show ?thesis by blast
qed

lemma readsBack_Symbol:
  assumes "s = c # t" "\<not> isWhitespace c" "CHR '','' \<notin> set s"
  shows "readsBack plainLibrary (Symbol s)"
proof -
  have ts: "expression_toString plainLibrary (Symbol s) = s"
    and ps: "expression_parse plainLibrary = symbolParse"
    by (simp_all add: plainLibrary_def symbolText_def)
  from assms have c: "c \<noteq> CHR '',''" by auto
  have "\<exists>c t. s = c # t \<and> \<not> isWhitespace c \<and> c \<noteq> CHR '',''"
    using assms(1,2) c by blast
  moreover have "\<exists>rest. symbolParse (ws @ s) = Inr (Symbol s, rest)"
    if "list_all isWhitespace ws" for ws
    using symbolParse_text(1) [OF that assms] by blast
  moreover have "\<exists>rest. symbolParse (ws @ s @ '', '' @ c' # further) = Inr (Symbol s, rest)
      \<and> (rest = '', '' @ c' # further \<or> rest = CHR '' '' # c' # further
           \<or> rest = c' # further)"
    if "list_all isWhitespace ws" for ws c' further
    using symbolParse_text(2) [OF that assms, of "c' # further"] by blast
  ultimately show ?thesis
    unfolding readsBack_def ts ps by blast
qed


text \<open>
  C2. \<open>toString\<close> is the texts of the left, top, right and bottom expressions, in this
  order, separated by \<open>", "\<close>. The text constructor puts the first expression it parses
  into left, the second into top, the third into right and the fourth into bottom. For a
  rectangle whose four expressions read back from their texts, the constructor applied to
  \<open>toString\<close> gives the rectangle itself, which \<open>==\<close> holds equal to it.
\<close>

theorem toString_round_trip:
  assumes l: "readsBack L (getExpression (left R))"
    and t: "readsBack L (getExpression (top' R))"
    and r: "readsBack L (getExpression (right R))"
    and b: "readsBack L (getExpression (bottom R))"
  shows "toString L R =
           expression_toString L (getExpression (left R)) @ '', ''
           @ expression_toString L (getExpression (top' R)) @ '', ''
           @ expression_toString L (getExpression (right R)) @ '', ''
           @ expression_toString L (getExpression (bottom R))
     \<and> RelativeRectangle_of_String L (toString L R) = Inr R
     \<and> (case RelativeRectangle_of_String L (toString L R) of
           Inl err \<Rightarrow> False
         | Inr R' \<Rightarrow> operator_eq R' R)
     \<and> (expression_parse L s = Inr (e1, t1)
         \<and> expression_parse L (skipComma t1) = Inr (e2, t2)
         \<and> expression_parse L (skipComma t2) = Inr (e3, t3)
         \<and> expression_parse L (skipComma t3) = Inr (e4, t4) \<longrightarrow>
         RelativeRectangle_of_String L s =
           Inr \<lparr>left = RelativeCoordinate e1, right = RelativeCoordinate e3,
                top' = RelativeCoordinate e2, bottom = RelativeCoordinate e4\<rparr>)"
proof -
  let ?S = "expression_toString L"
  let ?P = "expression_parse L"
  let ?l = "getExpression (left R)" and ?t = "getExpression (top' R)"
  let ?r = "getExpression (right R)" and ?b = "getExpression (bottom R)"
  from t obtain ct tt where ct: "?S ?t = ct # tt" "\<not> isWhitespace ct" "ct \<noteq> CHR '',''"
    by (rule readsBack_first_char)
  from r obtain cr tr where cr: "?S ?r = cr # tr" "\<not> isWhitespace cr" "cr \<noteq> CHR '',''"
    by (rule readsBack_first_char)
  from b obtain cb tb where cb: "?S ?b = cb # tb" "\<not> isWhitespace cb" "cb \<noteq> CHR '',''"
    by (rule readsBack_first_char)
  have none: "list_all isWhitespace []" by simp
  from readsBack_then_skipComma [OF l none ct(2,3)] obtain rest1 ws1 where
    p1: "?P ([] @ ?S ?l @ '', '' @ ct # (tt @ '', '' @ ?S ?r @ '', '' @ ?S ?b)) = Inr (?l, rest1)"
    and w1: "list_all isWhitespace ws1"
    and s1: "skipComma rest1 = ws1 @ ct # (tt @ '', '' @ ?S ?r @ '', '' @ ?S ?b)"
    by blast
  from readsBack_then_skipComma [OF t w1 cr(2,3)] obtain rest2 ws2 where
    p2: "?P (ws1 @ ?S ?t @ '', '' @ cr # (tr @ '', '' @ ?S ?b)) = Inr (?t, rest2)"
    and w2: "list_all isWhitespace ws2"
    and s2: "skipComma rest2 = ws2 @ cr # (tr @ '', '' @ ?S ?b)"
    by blast
  from readsBack_then_skipComma [OF r w2 cb(2,3)] obtain rest3 ws3 where
    p3: "?P (ws2 @ ?S ?r @ '', '' @ cb # tb) = Inr (?r, rest3)"
    and w3: "list_all isWhitespace ws3"
    and s3: "skipComma rest3 = ws3 @ cb # tb"
    by blast
  from readsBack_last [OF b w3] obtain rest4 where
    p4: "?P (ws3 @ ?S ?b) = Inr (?b, rest4)"
    by blast
  have q1: "?P (toString L R) = Inr (?l, rest1)"
    using p1 by (simp add: toString_def coordinate_toString_def ct(1) cr(1))
  have q2: "?P (skipComma rest1) = Inr (?t, rest2)"
    using p2 by (simp add: s1 ct(1) cr(1))
  have q3: "?P (skipComma rest2) = Inr (?r, rest3)"
    using p3 by (simp add: s2 cr(1) cb(1))
  have q4: "?P (skipComma rest3) = Inr (?b, rest4)"
    using p4 by (simp add: s3 cb(1))
  have again: "RelativeRectangle_of_String L (toString L R) = Inr R"
    unfolding RelativeRectangle_of_String_def
    by (simp add: q1 q2 q3 q4)
  have ordered: "expression_parse L s = Inr (e1, t1)
       \<and> expression_parse L (skipComma t1) = Inr (e2, t2)
       \<and> expression_parse L (skipComma t2) = Inr (e3, t3)
       \<and> expression_parse L (skipComma t3) = Inr (e4, t4) \<longrightarrow>
       RelativeRectangle_of_String L s =
         Inr \<lparr>left = RelativeCoordinate e1, right = RelativeCoordinate e3,
              top' = RelativeCoordinate e2, bottom = RelativeCoordinate e4\<rparr>"
    by (simp add: RelativeRectangle_of_String_def)
  have str: "toString L R =
           expression_toString L (getExpression (left R)) @ '', ''
           @ expression_toString L (getExpression (top' R)) @ '', ''
           @ expression_toString L (getExpression (right R)) @ '', ''
           @ expression_toString L (getExpression (bottom R))"
    by (simp add: toString_def coordinate_toString_def)
  have same: "operator_eq R R"
    by (simp add: operator_eq_def coordinate_eq_def)
  from str again same ordered show ?thesis
    by (simp del: append.simps append_Cons append_Nil)
qed



theorem toString_round_trip_witness:
  "readsBack plainLibrary (getExpression (left mirrored))
   \<and> readsBack plainLibrary (getExpression (top' mirrored))
   \<and> readsBack plainLibrary (getExpression (right mirrored))
   \<and> readsBack plainLibrary (getExpression (bottom mirrored))
   \<and> toString plainLibrary mirrored = ''x, y, right, bottom''
   \<and> RelativeRectangle_of_String plainLibrary ''x, y, right, bottom'' = Inr mirrored
   \<and> operator_eq mirrored mirrored
   \<and> expression_parse plainLibrary ''x, y, right, bottom''
       = Inr (Symbol ''x'', '', y, right, bottom'')
   \<and> expression_parse plainLibrary (skipComma '', y, right, bottom'')
       = Inr (Symbol ''y'', '', right, bottom'')
   \<and> expression_parse plainLibrary (skipComma '', right, bottom'')
       = Inr (Symbol ''right'', '', bottom'')
   \<and> expression_parse plainLibrary (skipComma '', bottom'') = Inr (Symbol ''bottom'', [])"
proof -
  have l: "readsBack plainLibrary (getExpression (left mirrored))"
    by (simp add: mirrored_def readsBack_Symbol [of _ "CHR ''x''" "[]"] isWhitespace_def)
  have t: "readsBack plainLibrary (getExpression (top' mirrored))"
    by (simp add: mirrored_def readsBack_Symbol [of _ "CHR ''y''" "[]"] isWhitespace_def)
  have r: "readsBack plainLibrary (getExpression (right mirrored))"
    by (simp add: mirrored_def readsBack_Symbol [of _ "CHR ''r''" "''ight''"] isWhitespace_def)
  have b: "readsBack plainLibrary (getExpression (bottom mirrored))"
    by (simp add: mirrored_def readsBack_Symbol [of _ "CHR ''b''" "''ottom''"] isWhitespace_def)
  have str: "toString plainLibrary mirrored = ''x, y, right, bottom''"
    by (simp add: toString_def coordinate_toString_def mirrored_def plainLibrary_def
        symbolText_def)
  have p: "expression_parse plainLibrary ''x, y, right, bottom''
       = Inr (Symbol ''x'', '', y, right, bottom'')"
    "expression_parse plainLibrary (skipComma '', y, right, bottom'')
       = Inr (Symbol ''y'', '', right, bottom'')"
    "expression_parse plainLibrary (skipComma '', right, bottom'')
       = Inr (Symbol ''right'', '', bottom'')"
    "expression_parse plainLibrary (skipComma '', bottom'') = Inr (Symbol ''bottom'', [])"
    by (simp_all add: plainLibrary_def symbolParse_def skipComma_def findEndOfWhitespace_def
        isWhitespace_def)
  from toString_round_trip [OF l t r b]
  have "RelativeRectangle_of_String plainLibrary (toString plainLibrary mirrored)
          = Inr mirrored"
    by blast
  then have again: "RelativeRectangle_of_String plainLibrary ''x, y, right, bottom''
          = Inr mirrored"
    by (simp only: str)
  have same: "operator_eq mirrored mirrored"
    by (simp add: operator_eq_def coordinate_eq_def)
  from l t r b str again same p show ?thesis
    by (simp only: simp_thms)
qed

section \<open>Rectangles made from a literal rectangle\<close>

lemma resolve_literal:
  assumes "coordinate_resolve L = RelativeCoordinate_resolve other (Suc depth)"
  shows "resolve L (RelativeRectangle_of_Rectangle rect) None =
     Inr \<lparr>getX = to_float (getX rect), getY = to_float (getY rect),
          getWidth = to_float (jmax zero
            (double_sub (double_add (getX rect) (getWidth rect)) (getX rect))),
          getHeight = to_float (jmax zero
            (double_sub (double_add (getY rect) (getHeight rect)) (getY rect)))\<rparr>"
  by (simp add: assms RelativeRectangle_of_Rectangle_def RelativeCoordinate_resolve_def
      RelativeRectangleLocalScope_def getTypeOf_def applyOperator_def)

lemma literal_not_dynamic: "\<not> isDynamic (RelativeRectangle_of_Rectangle rect)"
  by (simp add: RelativeRectangle_of_Rectangle_def dynamic_eval)


text \<open>
  C10, amended. A rectangle made from a literal \<open>Rectangle<float>\<close> is never dynamic.
  Resolved with the null scope (coordinates resolving by evaluation with at least one nested
  look-up), it gives back the x and the y of the literal rectangle, and it gives back the
  width when the width is at least zero and the double-precision sum \<open>x + width\<close> is exact;
  likewise the height with \<open>y + height\<close>.
\<close>

theorem literal_rectangle_resolves:
  assumes "coordinate_resolve L = RelativeCoordinate_resolve other (Suc depth)"
    and "is_format binary32 (getX rect)" and "is_format binary32 (getY rect)"
    and "is_format binary32 (getWidth rect)" and "is_format binary32 (getHeight rect)"
  shows "\<not> isDynamic (RelativeRectangle_of_Rectangle rect)
     \<and> (\<exists>res. resolve L (RelativeRectangle_of_Rectangle rect) None = Inr res
          \<and> getX res = getX rect \<and> getY res = getY rect
          \<and> (ieee_le zero (getWidth rect) \<and> add_is_exact (getX rect) (getWidth rect)
               \<longrightarrow> ieee_eq (getWidth res) (getWidth rect))
          \<and> (ieee_le zero (getHeight rect) \<and> add_is_exact (getY rect) (getHeight rect)
               \<longrightarrow> ieee_eq (getHeight res) (getHeight rect)))"
proof -
  let ?res = "\<lparr>getX = to_float (getX rect), getY = to_float (getY rect),
          getWidth = to_float (jmax zero
            (double_sub (double_add (getX rect) (getWidth rect)) (getX rect))),
          getHeight = to_float (jmax zero
            (double_sub (double_add (getY rect) (getHeight rect)) (getY rect)))\<rparr>"
  have "resolve L (RelativeRectangle_of_Rectangle rect) None = Inr ?res"
    using assms(1) by (rule resolve_literal)
  moreover have "getX ?res = getX rect" "getY ?res = getY rect"
    using assms(2,3) by (simp_all add: to_float_id)
  moreover have "ieee_le zero (getWidth rect) \<and> add_is_exact (getX rect) (getWidth rect)
               \<longrightarrow> ieee_eq (getWidth ?res) (getWidth rect)"
    using extent_exact [OF assms(4), of "getX rect"] by simp
  moreover have "ieee_le zero (getHeight rect) \<and> add_is_exact (getY rect) (getHeight rect)
               \<longrightarrow> ieee_eq (getHeight ?res) (getHeight rect)"
    using extent_exact [OF assms(5), of "getY rect"] by simp
  ultimately show ?thesis
    using literal_not_dynamic [of rect] by blast
qed

theorem literal_rectangle_resolves_witness:
  "coordinate_resolve plainLibrary = RelativeCoordinate_resolve noOperators (Suc 255)
   \<and> is_format binary32 (Finite False 21 (- 1)) \<and> is_format binary32 (Finite True 3 2)
   \<and> is_format binary32 (Finite False 401 (- 2)) \<and> is_format binary32 (Finite False 0 0)
   \<and> ieee_le zero (Finite False 401 (- 2))
   \<and> add_is_exact (Finite False 21 (- 1)) (Finite False 401 (- 2))
   \<and> ieee_le zero (Finite False 0 0)
   \<and> add_is_exact (Finite True 3 2) (Finite False 0 0)
   \<and> \<not> isDynamic (RelativeRectangle_of_Rectangle
           \<lparr>getX = Finite False 21 (- 1), getY = Finite True 3 2,
            getWidth = Finite False 401 (- 2), getHeight = Finite False 0 0\<rparr>)
   \<and> (\<exists>res. resolve plainLibrary
           (RelativeRectangle_of_Rectangle
              \<lparr>getX = Finite False 21 (- 1), getY = Finite True 3 2,
               getWidth = Finite False 401 (- 2), getHeight = Finite False 0 0\<rparr>) None
          = Inr res
        \<and> getX res = Finite False 21 (- 1) \<and> getY res = Finite True 3 2
        \<and> ieee_eq (getWidth res) (Finite False 401 (- 2))
        \<and> ieee_eq (getHeight res) (Finite False 0 0))"
proof -
  let ?rect = "\<lparr>getX = Finite False 21 (- 1), getY = Finite True 3 2,
            getWidth = Finite False 401 (- 2), getHeight = Finite False 0 0\<rparr>"
  have cr: "coordinate_resolve plainLibrary = RelativeCoordinate_resolve noOperators (Suc 255)"
    by (simp add: plainLibrary_def)
  have fmt: "is_format binary32 (getX ?rect)" "is_format binary32 (getY ?rect)"
    "is_format binary32 (getWidth ?rect)" "is_format binary32 (getHeight ?rect)"
    by (simp_all add: binary32_def bitlen_0 bitlen_Suc_0 bitlen_numeral)
  have pre: "ieee_le zero (Finite False 401 (- 2))"
    "add_is_exact (Finite False 21 (- 1)) (Finite False 401 (- 2))"
    "ieee_le zero (Finite False 0 0)"
    "add_is_exact (Finite True 3 2) (Finite False 0 0)"
    by (simp_all add: ieee_eval)
  from literal_rectangle_resolves [OF cr fmt] cr fmt pre
  show ?thesis by simp
qed

text \<open>
  Without the exact sum the width is lost. Take the literal rectangle with \<open>x = 2^53\<close>
  (\<open>Finite False 1 53\<close>, that is 9007199254740992), \<open>y = 0\<close>, width 1 and height 1, all of
  them floats and both extents non-negative. The constructor makes the right edge
  \<open>left + 1\<close>; the sum \<open>2^53 + 1\<close> is no \<open>double\<close> and rounds to \<open>2^53\<close>, so that
  \<open>resolve\<close> computes \<open>jmax (0.0, 2^53 - 2^53)\<close>: the resolved width is 0, not 1.
\<close>

theorem literal_rectangle_counterexample:
  "is_format binary32 (Finite False 1 53) \<and> is_format binary32 (Finite False 0 0)
   \<and> is_format binary32 (Finite False 1 0)
   \<and> ieee_le zero (Finite False 1 0)
   \<and> resolve plainLibrary
        (RelativeRectangle_of_Rectangle
           \<lparr>getX = Finite False 1 53, getY = Finite False 0 0,
            getWidth = Finite False 1 0, getHeight = Finite False 1 0\<rparr>) None
       = Inr \<lparr>getX = Finite False 1 53, getY = Finite False 0 0,
              getWidth = Finite False 0 0, getHeight = Finite False 1 0\<rparr>
   \<and> \<not> ieee_eq (Finite False 0 0) (Finite False 1 0)"
  by (simp add: RelativeRectangle_of_Rectangle_def resolve_eval ieee_eval)


end
